theory Spec2Isabelle
  imports Complex_Main
begin

section \<open>The Buchla low-pass gate of BuchlaLowPassGate.cpp\<close>

text \<open>
  A shallow embedding of \<^verbatim>\<open>Source/BuchlaBongo/Private/BuchlaLowPassGate.cpp\<close>:
  the envelope state \<^verbatim>\<open>FEnvelopeState\<close>, the envelope engine
  \<^verbatim>\<open>Envelope::GetNextEnvelopeOutput\<close> and the operator
  \<^verbatim>\<open>FLowPassGateOperator\<close> with \<^verbatim>\<open>UpdateParams\<close>,
  \<^verbatim>\<open>CalculateEnvelope\<close>, \<^verbatim>\<open>HandleLowPassFilter\<close> and
  \<^verbatim>\<open>Execute\<close>.

  Conventions of the embedding.
  \<^item> A \<^verbatim>\<open>float\<close> is a \<open>real\<close>; infinities and NaN have no model. The rounding of
    binary32 arithmetic is written out (\<open>float32\<close>) where a rounded value is cut to an
    integer, in \<^verbatim>\<open>UpdateParams\<close>: there it decides the sample count. The envelope and
    gain formulas are taken in exact arithmetic, as the spec states them.
  \<^item> An \<^verbatim>\<open>int32\<close> is an \<open>int\<close>, and every \<^verbatim>\<open>int32\<close> sum or difference the code forms
    (\<^verbatim>\<open>CurrentSampleIndex++\<close>, \<^verbatim>\<open>AttackSampleCount + DecaySampleCount\<close>,
    \<^verbatim>\<open>CurrentSampleIndex - AttackSampleCount\<close>) is wrapped into 32 bits
    (\<open>wrap_int32\<close>), as the compiled two's-complement arithmetic does.
  \<^item> A \<^verbatim>\<open>float\<close> assigned to an \<^verbatim>\<open>int32\<close> loses its fractional part
    (\<open>float_to_int32\<close>), inside the range of \<^verbatim>\<open>int32\<close>.
  \<^item> A member function that mutates the object takes the object and returns the new one;
    an out-parameter is a component of the result.
\<close>

subsection \<open>Engine primitives\<close>

text \<open>
  The Unreal Engine headers (\<^verbatim>\<open>FMath\<close>, \<^verbatim>\<open>FTrigger\<close>, \<^verbatim>\<open>Audio::FStateVariableFilter\<close>,
  \<^verbatim>\<open>Audio::FExponentialEase\<close>) are not part of the sources. What the operator uses of
  them is modelled here; the two tolerance constants and the filter are parameters.
\<close>

datatype ELowPassGateMode = LowPass | VCA | Both

definition INDEX_NONE :: int where
  "INDEX_NONE = -1"

text \<open>
  Modelled from the spec: \<^verbatim>\<open>FMath::Pow\<close> is missing from the sources; the spec writes
  \<open>fraction^curve_factor\<close>. It is the C function \<^verbatim>\<open>powf\<close>: \<open>powf(x, 0) = 1\<close>;
  on a positive base the real power; \<open>powf(0, y) = 0\<close> for \<open>y > 0\<close>; on a negative
  base and an integer exponent the power of the absolute value with the sign of the
  parity. Where \<^verbatim>\<open>powf\<close> has no real value (\<open>0\<close> to a negative exponent is infinite, a
  negative base to a fractional exponent is NaN) the definition gives \<open>0\<close>; the
  theorems below keep to a base and an exponent that are not negative.
\<close>

definition Pow :: "real \<Rightarrow> real \<Rightarrow> real" where
  "Pow x y =
     (if y = 0 then 1
      else if 0 \<le> x then x powr y
      else if y \<in> \<int> then (if even \<lfloor>y\<rfloor> then \<bar>x\<bar> powr y else - (\<bar>x\<bar> powr y))
      else 0)"

text \<open>
  Modelled from the spec: \<^verbatim>\<open>FMath::Clamp\<close> is missing from the sources; the spec says
  the cutoff is "clamped to \<open>[0, sample_rate/2]\<close>".
\<close>

definition Clamp :: "real \<Rightarrow> real \<Rightarrow> real \<Rightarrow> real" where
  "Clamp X MinValue MaxValue =
     (if X < MinValue then MinValue else if X < MaxValue then X else MaxValue)"

text \<open>
  Modelled from the spec: \<^verbatim>\<open>FMath::GetMappedRangeValueClamped\<close> is missing from the
  sources; the spec says the cutoff is mapped "linearly into \<open>[0,1]\<close>" from a
  "0-20000 linear control value". The position of the value in the input range is
  clamped to \<open>[0,1]\<close> and interpolated into the output range.
\<close>

definition GetMappedRangeValueClamped :: "real \<times> real \<Rightarrow> real \<times> real \<Rightarrow> real \<Rightarrow> real" where
  "GetMappedRangeValueClamped InputRange OutputRange Value =
     (let ClampedPct = Clamp ((Value - fst InputRange) / (snd InputRange - fst InputRange)) 0 1
      in fst OutputRange + ClampedPct * (snd OutputRange - fst OutputRange))"

text \<open>
  Modelled from the spec: \<^verbatim>\<open>FMath::IsNearlyEqual\<close> is missing from the sources; the
  spec says two values are taken as equal unless they "differ by more than a
  floating-point near-equality tolerance". The tolerance is the parameter \<open>tol\<close>.
\<close>

definition IsNearlyEqual :: "real \<Rightarrow> real \<Rightarrow> real \<Rightarrow> bool" where
  "IsNearlyEqual tol A B = (\<bar>A - B\<bar> \<le> tol)"

text \<open>
  The machine arithmetic of the source. \<open>wrap_int32\<close> is the value of an \<^verbatim>\<open>int32\<close>
  result in two's complement: C++ leaves a signed overflow undefined, the compiled code
  wraps. \<open>float32\<close> rounds a real to the nearest binary32 value, ties to even, with
  24 significant bits above the smallest normal exponent \<open>-126\<close> and the fixed step
  \<open>2^-149\<close> below it; it is the result of a \<^verbatim>\<open>float\<close> operation whose exact result is
  \<open>x\<close>, for \<open>x\<close> below the overflow threshold \<open>2^128\<close>. \<open>FLT_MAX\<close> is the largest
  binary32 value: a time of at most that magnitude is converted to a finite \<^verbatim>\<open>float\<close>,
  a greater one to an infinity, which has no model. \<open>float_to_int32\<close> is the
  implicit conversion of a \<^verbatim>\<open>float\<close> to \<^verbatim>\<open>int32\<close> in an assignment: the fractional
  part is discarded. For a value outside \<^verbatim>\<open>int32\<close> C++ leaves the conversion
  undefined; the conversion instruction of x86-64 gives \<open>-2^31\<close> there, which the
  definition takes.
\<close>

definition wrap_int32 :: "int \<Rightarrow> int" where
  "wrap_int32 k = (k + 2 ^ 31) mod 2 ^ 32 - 2 ^ 31"

definition RoundTiesToEven :: "real \<Rightarrow> int" where
  "RoundTiesToEven r =
     (let f = \<lfloor>r\<rfloor>
      in if r - of_int f < 1 / 2 then f
         else if 1 / 2 < r - of_int f then f + 1
         else if even f then f else f + 1)"

definition float32 :: "real \<Rightarrow> real" where
  "float32 x =
     (if x = 0 then 0
      else let e = max \<lfloor>log 2 \<bar>x\<bar>\<rfloor> (- 126);
               ulp = 2 powi (e - 23)
           in of_int (RoundTiesToEven (x / ulp)) * ulp)"

definition FLT_MAX :: real where
  "FLT_MAX = (2 ^ 24 - 1) * 2 ^ 104"

definition float_to_int32 :: "real \<Rightarrow> int" where
  "float_to_int32 x =
     (if - (2 ^ 31) - 1 < x \<and> x < 2 ^ 31 then (if 0 \<le> x then \<lfloor>x\<rfloor> else \<lceil>x\<rceil>)
      else - (2 ^ 31))"

text \<open>
  Modelled from the spec: \<^verbatim>\<open>FTrigger\<close> is missing from the sources. A trigger stream is
  the list of the frame indices triggered in the current block. \<^verbatim>\<open>AdvanceBlock\<close>
  moves the stream "to the new block boundary (clearing any queued events from the
  prior block)"; \<^verbatim>\<open>TriggerFrame\<close> adds an event at a frame.
\<close>

type_synonym FTrigger = "int list"

definition AdvanceBlock :: "FTrigger \<Rightarrow> FTrigger" where
  "AdvanceBlock t = []"

definition TriggerFrame :: "int \<Rightarrow> FTrigger \<Rightarrow> FTrigger" where
  "TriggerFrame InFrameToTrigger t = t @ [InFrameToTrigger]"

text \<open>
  Modelled from the spec: \<^verbatim>\<open>FTrigger::ExecuteBlock\<close> is missing from the sources. The
  spec: "Partition the block into sub-ranges at each trigger frame. For each sub-range
  with no trigger at its start" the first handler runs, "for each sub-range whose start
  frame is a trigger" the second. With no trigger the whole block is one sub-range with
  no trigger at its start; otherwise the frames before the first trigger (when there are
  any) are such a sub-range, and each trigger starts a sub-range that ends at the next
  trigger or at the end of the block.
\<close>

fun ExecuteTriggers :: "(int \<Rightarrow> int \<Rightarrow> 's \<Rightarrow> 's) \<Rightarrow> int \<Rightarrow> int list \<Rightarrow> 's \<Rightarrow> 's" where
  "ExecuteTriggers InOnTrigger NumFrames [] s = s"
| "ExecuteTriggers InOnTrigger NumFrames [t] s = InOnTrigger t NumFrames s"
| "ExecuteTriggers InOnTrigger NumFrames (t # t' # ts) s =
     ExecuteTriggers InOnTrigger NumFrames (t' # ts) (InOnTrigger t t' s)"

definition ExecuteBlock ::
  "(int \<Rightarrow> int \<Rightarrow> 's \<Rightarrow> 's) \<Rightarrow> (int \<Rightarrow> int \<Rightarrow> 's \<Rightarrow> 's) \<Rightarrow> int \<Rightarrow> FTrigger \<Rightarrow> 's \<Rightarrow> 's" where
  "ExecuteBlock InPreTrigger InOnTrigger NumFrames Triggers s =
     (case Triggers of
        [] \<Rightarrow> InPreTrigger 0 NumFrames s
      | t # ts \<Rightarrow>
          ExecuteTriggers InOnTrigger NumFrames Triggers
            (if 0 < t then InPreTrigger 0 t s else s))"

text \<open>
  The engine as the operator sees it. \<open>KINDA_SMALL_NUMBER\<close> is the "small positive
  epsilon" of the curve factors and \<open>SMALL_NUMBER\<close> the default tolerance of
  \<^verbatim>\<open>FMath::IsNearlyEqual\<close>. The state-variable filter is a black box of type \<open>'f\<close>
  with the interface the operator calls: three setters, \<^verbatim>\<open>Update\<close> (commit the
  pending parameters) and \<^verbatim>\<open>ProcessAudio\<close>, which consumes a buffer and returns
  the filter with the samples it wrote.
\<close>

record 'f FEngine =
  KINDA_SMALL_NUMBER :: real
  SMALL_NUMBER :: real
  SetQ :: "real \<Rightarrow> 'f \<Rightarrow> 'f"
  SetFrequency :: "real \<Rightarrow> 'f \<Rightarrow> 'f"
  SetBandStopControl :: "real \<Rightarrow> 'f \<Rightarrow> 'f"
  Update :: "'f \<Rightarrow> 'f"
  ProcessAudio :: "'f \<Rightarrow> real list \<Rightarrow> 'f \<times> real list"

subsection \<open>FEnvelopeState and Envelope::GetNextEnvelopeOutput\<close>

text \<open>
  \<^verbatim>\<open>struct FEnvelopeState\<close>. \<open>EnvelopeEase\<close> holds the value of the
  \<^verbatim>\<open>Audio::FExponentialEase\<close> smoother, which the operator only ever sets.
\<close>

record FEnvelopeState =
  CurrentSampleIndex :: int
  AttackSampleCount :: int
  DecaySampleCount :: int
  AttackCurveFactor :: real
  DecayCurveFactor :: real
  EnvelopeEase :: real
  StartingEnvelopeValue :: real
  CurrentEnvelopeValue :: real
  bLooping :: bool
  bHardReset :: bool

text \<open>The member initialisers of \<^verbatim>\<open>FEnvelopeState\<close>.\<close>

definition FEnvelopeState_init :: FEnvelopeState where
  "FEnvelopeState_init =
     \<lparr> CurrentSampleIndex = INDEX_NONE, AttackSampleCount = 1, DecaySampleCount = 1,
       AttackCurveFactor = 0, DecayCurveFactor = 0, EnvelopeEase = 0,
       StartingEnvelopeValue = 0, CurrentEnvelopeValue = 0,
       bLooping = False, bHardReset = False \<rparr>"

text \<open>
  \<^verbatim>\<open>Envelope::GetNextEnvelopeOutput(InState, StartFrame, EndFrame, OutFinishedFrames,
  OutEnvelopeValue)\<close>. The result is the new state, the finished frames after the call and
  the value written to \<^verbatim>\<open>OutEnvelopeValue\<close> (every path assigns it).
  \<^verbatim>\<open>CurrentSampleIndex++\<close> yields the index before the increment. The two fractions
  are the quotients of the integers.
\<close>

definition GetNextEnvelopeOutput ::
  "FEnvelopeState \<Rightarrow> int \<Rightarrow> int \<Rightarrow> int list \<Rightarrow> FEnvelopeState \<times> int list \<times> real" where
  "GetNextEnvelopeOutput InState StartFrame EndFrame OutFinishedFrames =
     (if StartFrame > 0 \<or> CurrentSampleIndex InState = INDEX_NONE then
        (InState, OutFinishedFrames, 0)
      else if CurrentSampleIndex InState < AttackSampleCount InState then
        (if AttackSampleCount InState > 1 then
           (let AttackFraction =
                  real_of_int (CurrentSampleIndex InState) / real_of_int (AttackSampleCount InState)
            in (InState\<lparr>CurrentSampleIndex := wrap_int32 (CurrentSampleIndex InState + 1)\<rparr>,
                OutFinishedFrames,
                StartingEnvelopeValue InState
                  + (1 - StartingEnvelopeValue InState) * Pow AttackFraction (AttackCurveFactor InState)))
         else
           (InState\<lparr>CurrentSampleIndex := wrap_int32 (CurrentSampleIndex InState + 1)\<rparr>,
            OutFinishedFrames, 1))
      else
        (let TotalEnvSampleCount = wrap_int32 (AttackSampleCount InState + DecaySampleCount InState)
         in if CurrentSampleIndex InState < TotalEnvSampleCount then
              (let SampleCountInDecayState =
                     wrap_int32 (CurrentSampleIndex InState - AttackSampleCount InState);
                   DecayFraction =
                     real_of_int SampleCountInDecayState / real_of_int (DecaySampleCount InState)
               in (InState\<lparr>CurrentSampleIndex := wrap_int32 (CurrentSampleIndex InState + 1)\<rparr>,
                   OutFinishedFrames,
                   1 - Pow DecayFraction (DecayCurveFactor InState)))
            else
              (InState\<lparr>CurrentSampleIndex := INDEX_NONE\<rparr>, OutFinishedFrames @ [0], 0)))"

subsection \<open>FLowPassGateOperator\<close>

text \<open>
  The members of \<^verbatim>\<open>class FLowPassGateOperator\<close>. The first eight are the read
  references the host fills before each block; \<open>InAttackCurveFactor\<close> and
  \<open>InDecayCurveFactor\<close> are the members \<^verbatim>\<open>AttackCurveFactor\<close> and
  \<^verbatim>\<open>DecayCurveFactor\<close> of the operator (the names are taken by the envelope state),
  \<open>AttackTime\<close> and \<open>DecayTime\<close> are in seconds. \<open>OutEnvelope\<close> to
  \<open>AudioOutput\<close> are the write references.
\<close>

record 'f FLowPassGateOperator =
  TriggerAttackIn :: FTrigger
  AttackTime :: real
  DecayTime :: real
  InAttackCurveFactor :: real
  InDecayCurveFactor :: real
  AudioInput :: "real list"
  CutOffFrequency :: real
  Mode :: ELowPassGateMode
  OnAttackTrigger :: FTrigger
  OnDone :: FTrigger
  OutEnvelope :: real
  AudioOutput :: "real list"
  SampleRate :: real
  NumFramesPerBlock :: int
  EnvelopeState :: FEnvelopeState
  VariableFilter :: 'f
  PreviousFrequency :: real
  PreviousResonance :: real
  PreviousBandStopControl :: real

text \<open>
  \<^verbatim>\<open>FLowPassGateOperator::UpdateParams\<close>. The two times are stored in \<^verbatim>\<open>float\<close>
  variables; \<^verbatim>\<open>SampleRate * AttackTimeSeconds\<close> is a \<^verbatim>\<open>float\<close> product, rounded to
  binary32; \<^verbatim>\<open>FMath::Max(1, ...)\<close> of it is a \<^verbatim>\<open>float\<close>, converted to \<^verbatim>\<open>int32\<close> by the
  assignment.
\<close>

definition UpdateParams :: "'f FEngine \<Rightarrow> 'f FLowPassGateOperator \<Rightarrow> 'f FLowPassGateOperator" where
  "UpdateParams E s =
     (let AttackTimeSeconds = float32 (AttackTime s);
          DecayTimeSeconds = float32 (DecayTime s)
      in s\<lparr>EnvelopeState := (EnvelopeState s)
            \<lparr>AttackSampleCount :=
               float_to_int32 (max 1 (float32 (SampleRate s * AttackTimeSeconds))),
             DecaySampleCount :=
               float_to_int32 (max 1 (float32 (SampleRate s * DecayTimeSeconds))),
             AttackCurveFactor := max (KINDA_SMALL_NUMBER E) (InAttackCurveFactor s),
             DecayCurveFactor := max (KINDA_SMALL_NUMBER E) (InDecayCurveFactor s)\<rparr>\<rparr>)"

text \<open>
  The two handlers that \<^verbatim>\<open>CalculateEnvelope\<close> passes to \<^verbatim>\<open>ExecuteBlock\<close>. The first
  lambda runs on a sub-range with no trigger at its start, the second on a sub-range
  that a trigger starts. Each loop over \<^verbatim>\<open>FinishedFrames\<close> is a \<open>fold\<close>.
\<close>

definition PreTrigger :: "int \<Rightarrow> int \<Rightarrow> 'f FLowPassGateOperator \<Rightarrow> 'f FLowPassGateOperator" where
  "PreTrigger StartFrame EndFrame s =
     (case GetNextEnvelopeOutput (EnvelopeState s) StartFrame EndFrame [] of
        (st, FinishedFrames, v) \<Rightarrow>
          s\<lparr>EnvelopeState := st, OutEnvelope := v,
            OnDone := fold TriggerFrame FinishedFrames (OnDone s)\<rparr>)"

definition OnTrigger ::
  "'f FEngine \<Rightarrow> int \<Rightarrow> int \<Rightarrow> 'f FLowPassGateOperator \<Rightarrow> 'f FLowPassGateOperator" where
  "OnTrigger E StartFrame EndFrame s =
     (let s1 = UpdateParams E s;
          e1 = (EnvelopeState s1)\<lparr>CurrentSampleIndex := 0\<rparr>;
          e2 = e1\<lparr>StartingEnvelopeValue := (if bHardReset e1 then 0 else CurrentEnvelopeValue e1)\<rparr>;
          e3 = e2\<lparr>EnvelopeEase := StartingEnvelopeValue e2\<rparr>
      in case GetNextEnvelopeOutput e3 StartFrame EndFrame [] of
           (st, FinishedFrames, v) \<Rightarrow>
             s1\<lparr>EnvelopeState := st, OutEnvelope := v,
                OnDone := fold TriggerFrame FinishedFrames (OnDone s1),
                OnAttackTrigger := TriggerFrame StartFrame (OnAttackTrigger s1)\<rparr>)"

text \<open>
  \<^verbatim>\<open>FLowPassGateOperator::CalculateEnvelope\<close>. The input trigger stream has the block
  length of the operator settings, \<open>NumFramesPerBlock\<close>.
\<close>

definition CalculateEnvelope :: "'f FEngine \<Rightarrow> 'f FLowPassGateOperator \<Rightarrow> 'f FLowPassGateOperator" where
  "CalculateEnvelope E s =
     (let s1 = s\<lparr>OnAttackTrigger := AdvanceBlock (OnAttackTrigger s)\<rparr>;
          s2 = s1\<lparr>OnDone := AdvanceBlock (OnDone s1)\<rparr>;
          s3 = UpdateParams E s2
      in ExecuteBlock PreTrigger (OnTrigger E) (NumFramesPerBlock s3) (TriggerAttackIn s3) s3)"

text \<open>
  \<^verbatim>\<open>FLowPassGateOperator::HandleLowPassFilter\<close>; \<open>bNeedsUpdate\<close> is its local
  variable of that name.
\<close>

definition bNeedsUpdate :: "'f FEngine \<Rightarrow> 'f FLowPassGateOperator \<Rightarrow> bool" where
  "bNeedsUpdate E s =
     (let CurrentFrequency = Clamp (CutOffFrequency s) 0 (0.5 * SampleRate s);
          CurrentResonance = Clamp 0 0 10;
          CurrentBandStopControl = Clamp 0 0 1
      in \<not> IsNearlyEqual (SMALL_NUMBER E) (PreviousFrequency s) CurrentFrequency
         \<or> \<not> IsNearlyEqual (SMALL_NUMBER E) (PreviousResonance s) CurrentResonance
         \<or> \<not> IsNearlyEqual (SMALL_NUMBER E) (PreviousBandStopControl s) CurrentBandStopControl)"

definition HandleLowPassFilter ::
  "'f FEngine \<Rightarrow> 'f FLowPassGateOperator \<Rightarrow> 'f FLowPassGateOperator" where
  "HandleLowPassFilter E s =
     (let CurrentFrequency = Clamp (CutOffFrequency s) 0 (0.5 * SampleRate s);
          CurrentResonance = Clamp 0 0 10;
          CurrentBandStopControl = Clamp 0 0 1
      in if bNeedsUpdate E s then
           s\<lparr>VariableFilter :=
               Update E (SetBandStopControl E CurrentBandStopControl
                 (SetFrequency E CurrentFrequency (SetQ E CurrentResonance (VariableFilter s)))),
             PreviousFrequency := CurrentFrequency,
             PreviousResonance := CurrentResonance,
             PreviousBandStopControl := CurrentBandStopControl\<rparr>
         else s)"

text \<open>
  The loop \<^verbatim>\<open>for (int i = 0; i < AudioInput->Num(); ++i) Out[i] = In[i] * Gain;\<close> of
  \<^verbatim>\<open>Execute\<close>, writing into the buffer \<open>Out\<close>. Both buffers of a call have
  \<^verbatim>\<open>AudioInput->Num()\<close> samples; a write past the end of \<open>Out\<close> would be undefined in
  C++ and is no write in the model.
\<close>

definition ScaleBuffer :: "real list \<Rightarrow> real \<Rightarrow> real list \<Rightarrow> real list" where
  "ScaleBuffer In Gain Out =
     fold (\<lambda>i buf. buf[i := In ! i * Gain]) [0..<length In] Out"

text \<open>
  \<^verbatim>\<open>FLowPassGateOperator::Execute\<close>. The branch for \<^verbatim>\<open>Both\<close> repeats the body of
  \<^verbatim>\<open>CalculateEnvelope\<close> with the same two lambdas.
\<close>

definition Execute :: "'f FEngine \<Rightarrow> 'f FLowPassGateOperator \<Rightarrow> 'f FLowPassGateOperator" where
  "Execute E s =
     (case Mode s of
        LowPass \<Rightarrow>
          (let s1 = HandleLowPassFilter E s
           in case ProcessAudio E (VariableFilter s1) (AudioInput s1) of
                (F, Out) \<Rightarrow> s1\<lparr>VariableFilter := F, AudioOutput := Out\<rparr>)
      | VCA \<Rightarrow>
          (let s1 = CalculateEnvelope E s
           in s1\<lparr>AudioOutput := ScaleBuffer (AudioInput s1) (OutEnvelope s1) (AudioOutput s1)\<rparr>)
      | Both \<Rightarrow>
          (let InRange = (0, 20000);
               OutRange = (0, 1);
               ClampedFreq = GetMappedRangeValueClamped InRange OutRange (CutOffFrequency s);
               s1 = s\<lparr>OnAttackTrigger := AdvanceBlock (OnAttackTrigger s)\<rparr>;
               s2 = s1\<lparr>OnDone := AdvanceBlock (OnDone s1)\<rparr>;
               s3 = UpdateParams E s2;
               s4 = ExecuteBlock PreTrigger (OnTrigger E) (NumFramesPerBlock s3) (TriggerAttackIn s3) s3;
               GateEnvelope = OutEnvelope s4 * ClampedFreq;
               LocalBuffer = replicate (length (AudioInput s4)) 0;
               LocalInput = ScaleBuffer (AudioInput s4) GateEnvelope LocalBuffer;
               s5 = HandleLowPassFilter E s4
           in case ProcessAudio E (VariableFilter s5) LocalInput of
                (F, Out) \<Rightarrow> s5\<lparr>VariableFilter := F, AudioOutput := Out\<rparr>))"

text \<open>
  The operator as its constructor leaves it, for the settings \<open>sr\<close> (sample rate) and
  \<open>n\<close> (frames per block) and a filter \<open>F\<close> already initialised; the inputs are the
  defaults of the vertex interface.
\<close>

definition FLowPassGateOperator_init :: "real \<Rightarrow> nat \<Rightarrow> 'f \<Rightarrow> 'f FLowPassGateOperator" where
  "FLowPassGateOperator_init sr n F =
     \<lparr> TriggerAttackIn = [], AttackTime = 0.01, DecayTime = 1,
       InAttackCurveFactor = 1, InDecayCurveFactor = 1,
       AudioInput = replicate n 0, CutOffFrequency = 1000, Mode = LowPass,
       OnAttackTrigger = [], OnDone = [], OutEnvelope = 0, AudioOutput = replicate n 0,
       SampleRate = sr, NumFramesPerBlock = int n,
       EnvelopeState = FEnvelopeState_init, VariableFilter = F,
       PreviousFrequency = -1, PreviousResonance = -1, PreviousBandStopControl = -1 \<rparr>"

subsection \<open>Runs of the engine and test fixtures\<close>

text \<open>
  A continuous run of \<open>n\<close> calls of \<^verbatim>\<open>GetNextEnvelopeOutput\<close>, each with
  \<^verbatim>\<open>StartFrame = 0\<close> and a fresh \<^verbatim>\<open>FinishedFrames\<close> array, as the first lambda of
  \<^verbatim>\<open>CalculateEnvelope\<close> makes them block after block. The result is the final state
  and, per call, the finished frames and the envelope value of that call.
\<close>

fun AdvanceRun :: "int \<Rightarrow> nat \<Rightarrow> FEnvelopeState \<Rightarrow> FEnvelopeState \<times> (int list \<times> real) list" where
  "AdvanceRun EndFrame 0 s = (s, [])"
| "AdvanceRun EndFrame (Suc n) s =
     (case GetNextEnvelopeOutput s 0 EndFrame [] of
        (s', FinishedFrames, v) \<Rightarrow>
          (case AdvanceRun EndFrame n s' of (s'', outs) \<Rightarrow> (s'', (FinishedFrames, v) # outs)))"

text \<open>
  Fixtures for the concrete instances below: an envelope state at index \<open>i\<close> with
  \<open>a\<close> attack and \<open>d\<close> decay samples and linear curves, and an engine with the
  values Unreal Engine gives the two constants (\<open>1e-4\<close> and \<open>1e-8\<close>) and a filter
  that only holds its parameters (frequency, Q, band-stop control) and passes the audio
  through.
\<close>

definition TestEnvelope :: "int \<Rightarrow> int \<Rightarrow> int \<Rightarrow> FEnvelopeState" where
  "TestEnvelope i a d =
     FEnvelopeState_init\<lparr>CurrentSampleIndex := i, AttackSampleCount := a, DecaySampleCount := d,
       AttackCurveFactor := 1, DecayCurveFactor := 1\<rparr>"

definition TestEngine :: "(real \<times> real \<times> real) FEngine" where
  "TestEngine =
     \<lparr> KINDA_SMALL_NUMBER = 1 / 10000, SMALL_NUMBER = 1 / 100000000,
       SetQ = (\<lambda>q (f, _, b). (f, q, b)),
       SetFrequency = (\<lambda>f' (_, q, b). (f', q, b)),
       SetBandStopControl = (\<lambda>b' (f, q, _). (f, q, b')),
       Update = (\<lambda>F. F),
       ProcessAudio = (\<lambda>F xs. (F, xs)) \<rparr>"

text \<open>
  The operator as constructed for 48 kHz and blocks of four frames, with the test filter.
\<close>

definition TestOperator :: "(real \<times> real \<times> real) FLowPassGateOperator" where
  "TestOperator = FLowPassGateOperator_init 48000 4 (0, 0, 0)"

text \<open>
  The envelope state on which the second lambda (the trigger handler) calls the engine:
  the parameters refreshed, the index reset to \<open>0\<close>, and the starting value and the
  smoother set to \<^verbatim>\<open>bHardReset ? 0 : CurrentEnvelopeValue\<close>.
\<close>

definition Retriggered :: "'f FEngine \<Rightarrow> 'f FLowPassGateOperator \<Rightarrow> FEnvelopeState" where
  "Retriggered E s = (EnvelopeState (UpdateParams E s))
     \<lparr>CurrentSampleIndex := 0,
      StartingEnvelopeValue :=
        (if bHardReset (EnvelopeState s) then 0 else CurrentEnvelopeValue (EnvelopeState s)),
      EnvelopeEase :=
        (if bHardReset (EnvelopeState s) then 0 else CurrentEnvelopeValue (EnvelopeState s))\<rparr>"

text \<open>
  What the envelope pass of a block (\<^verbatim>\<open>CalculateEnvelope\<close>) leaves as it found it: the
  inputs, the audio output, the filter with its cache, and two fields of the envelope
  state that no statement of the source assigns outside \<^verbatim>\<open>Reset\<close>.
\<close>

definition SameOutside :: "'f FLowPassGateOperator \<Rightarrow> 'f FLowPassGateOperator \<Rightarrow> bool" where
  "SameOutside s s' \<longleftrightarrow>
     TriggerAttackIn s' = TriggerAttackIn s \<and> AttackTime s' = AttackTime s
     \<and> DecayTime s' = DecayTime s \<and> InAttackCurveFactor s' = InAttackCurveFactor s
     \<and> InDecayCurveFactor s' = InDecayCurveFactor s \<and> AudioInput s' = AudioInput s
     \<and> CutOffFrequency s' = CutOffFrequency s \<and> Mode s' = Mode s
     \<and> AudioOutput s' = AudioOutput s \<and> SampleRate s' = SampleRate s
     \<and> NumFramesPerBlock s' = NumFramesPerBlock s \<and> VariableFilter s' = VariableFilter s
     \<and> PreviousFrequency s' = PreviousFrequency s \<and> PreviousResonance s' = PreviousResonance s
     \<and> PreviousBandStopControl s' = PreviousBandStopControl s
     \<and> CurrentEnvelopeValue (EnvelopeState s') = CurrentEnvelopeValue (EnvelopeState s)
     \<and> bHardReset (EnvelopeState s') = bHardReset (EnvelopeState s)"

text \<open>
  Operators in given situations, all built from \<open>TestOperator\<close> (48 kHz, 480 attack
  and 48000 decay samples, linear curves): half-way up the attack in \<^verbatim>\<open>VCA\<close> and in
  \<^verbatim>\<open>Both\<close> mode, a quarter into the decay, past the last decay sample with a trigger at
  frame \<open>2\<close>, and in \<^verbatim>\<open>LowPass\<close> mode with a running envelope and an event left in the
  done stream.
\<close>

definition HalfOpen :: "(real \<times> real \<times> real) FLowPassGateOperator" where
  "HalfOpen = TestOperator\<lparr>Mode := VCA, AudioInput := [1, 1, 1, 1],
     EnvelopeState := TestEnvelope 240 480 48000\<rparr>"

definition HalfOpenBoth :: "(real \<times> real \<times> real) FLowPassGateOperator" where
  "HalfOpenBoth = HalfOpen\<lparr>Mode := Both, CutOffFrequency := 5000\<rparr>"

definition Decaying :: "(real \<times> real \<times> real) FLowPassGateOperator" where
  "Decaying = TestOperator\<lparr>Mode := VCA, AudioInput := [1, 1, 1, 1],
     EnvelopeState := TestEnvelope 12480 480 48000\<rparr>"

definition Finishing :: "(real \<times> real \<times> real) FLowPassGateOperator" where
  "Finishing = TestOperator\<lparr>Mode := VCA, TriggerAttackIn := [2],
     EnvelopeState := TestEnvelope 48480 480 48000\<rparr>"

definition Filtering :: "(real \<times> real \<times> real) FLowPassGateOperator" where
  "Filtering = TestOperator\<lparr>AudioInput := [1, 1, 1, 1], OnDone := [0], OutEnvelope := 3 / 4,
     EnvelopeState := TestEnvelope 12481 480 48000\<rparr>"

section \<open>Machine arithmetic\<close>

lemma wrap_int32_id: "- (2 ^ 31) \<le> k \<Longrightarrow> k < 2 ^ 31 \<Longrightarrow> wrap_int32 k = k"
  by (simp add: wrap_int32_def)

text \<open>Inside a binade the rounding step is the binade's.\<close>

lemma float32_binade:
  assumes "2 powi e \<le> \<bar>x\<bar>" "\<bar>x\<bar> < 2 powi (e + 1)" "- 126 \<le> e"
  shows "float32 x = of_int (RoundTiesToEven (x / 2 powi (e - 23))) * 2 powi (e - 23)"
proof -
  have pos: "0 < \<bar>x\<bar>"
    using assms(1) by (smt (verit) zero_less_power_int)
  have p: "(2::real) powr real_of_int e = 2 powi e"
    "(2::real) powr (real_of_int e + 1) = 2 powi (e + 1)"
    using powr_real_of_int' [of 2 e] powr_real_of_int' [of 2 "e + 1"] by simp_all
  have "\<lfloor>log 2 \<bar>x\<bar>\<rfloor> = e"
    using assms pos by (simp add: floor_log_eq_powr_iff p)
  then show ?thesis using pos assms(3) by (simp add: float32_def Let_def max_def)
qed

text \<open>
  The values the instances below need: \<open>0.01\<close> is not a binary32 value and becomes
  \<open>10737418 / 2^30\<close>; its product with \<open>48000\<close> is \<open>479.99998927...\<close> and rounds to
  \<open>480\<close>.
\<close>

lemma float32_values:
  "float32 0 = 0" "float32 1 = 1" "float32 48000 = 48000"
  "float32 (1 / 100) = 10737418 / 1073741824"
  "float32 (48000 * (10737418 / 1073741824)) = 480"
  "float32 (1 / 16384) = 1 / 16384"
  "float32 (48000 * (1 / 16384)) = 375 / 128"
  using float32_binade [of 0 1] float32_binade [of 15 48000] float32_binade [of "- 7" "1 / 100"]
    float32_binade [of 8 "48000 * (10737418 / 1073741824)"]
    float32_binade [of "- 14" "1 / 16384"] float32_binade [of 1 "48000 * (1 / 16384)"]
  by (simp_all add: float32_def RoundTiesToEven_def power_int_minus)

lemma float_to_int32_max_1:
  assumes "x < 2 ^ 31"
  shows "float_to_int32 (max 1 x) = max 1 \<lfloor>x\<rfloor>"
proof (cases "x \<le> 1")
  case True
  then have "\<lfloor>x\<rfloor> \<le> 1" by (simp add: floor_le_iff)
  with True show ?thesis by (simp add: float_to_int32_def max_def)
next
  case False
  then have "1 \<le> \<lfloor>x\<rfloor>" by (simp add: le_floor_iff)
  with False assms show ?thesis by (simp add: float_to_int32_def max_def)
qed

section \<open>The envelope engine\<close>

text \<open>
  One call on a running envelope, whatever its phase, moves the index on by one and
  reports no finished frame; a call past the last decay sample ends the envelope. The
  counts are at least \<open>1\<close> and their sum is an \<^verbatim>\<open>int32\<close>, so no sum wraps.
\<close>

lemma GetNextEnvelopeOutput_running:
  assumes "StartFrame \<le> 0" "0 \<le> CurrentSampleIndex s"
    and "CurrentSampleIndex s < AttackSampleCount s + DecaySampleCount s"
    and "1 \<le> AttackSampleCount s" "1 \<le> DecaySampleCount s"
    and "AttackSampleCount s + DecaySampleCount s < 2 ^ 31"
  shows "fst (GetNextEnvelopeOutput s StartFrame EndFrame fin) =
      s\<lparr>CurrentSampleIndex := CurrentSampleIndex s + 1\<rparr>"
    and "fst (snd (GetNextEnvelopeOutput s StartFrame EndFrame fin)) = fin"
  using assms by (auto simp add: GetNextEnvelopeOutput_def INDEX_NONE_def Let_def wrap_int32_id)

lemma GetNextEnvelopeOutput_done:
  assumes "StartFrame \<le> 0" "0 \<le> CurrentSampleIndex s"
    and "AttackSampleCount s + DecaySampleCount s \<le> CurrentSampleIndex s"
    and "1 \<le> AttackSampleCount s" "1 \<le> DecaySampleCount s"
    and "AttackSampleCount s + DecaySampleCount s < 2 ^ 31"
  shows "GetNextEnvelopeOutput s StartFrame EndFrame fin =
      (s\<lparr>CurrentSampleIndex := INDEX_NONE\<rparr>, fin @ [0], 0)"
  using assms by (auto simp add: GetNextEnvelopeOutput_def INDEX_NONE_def Let_def wrap_int32_id)

lemma AdvanceRun_running:
  "0 \<le> CurrentSampleIndex s \<Longrightarrow>
   CurrentSampleIndex s + int k \<le> AttackSampleCount s + DecaySampleCount s \<Longrightarrow>
   1 \<le> AttackSampleCount s \<Longrightarrow> 1 \<le> DecaySampleCount s \<Longrightarrow>
   AttackSampleCount s + DecaySampleCount s < 2 ^ 31 \<Longrightarrow>
   fst (AdvanceRun e k s) = s\<lparr>CurrentSampleIndex := CurrentSampleIndex s + int k\<rparr>
   \<and> map fst (snd (AdvanceRun e k s)) = replicate k []"
proof (induction k arbitrary: s)
  case 0
  then show ?case by simp
next
  case (Suc k)
  let ?s' = "s\<lparr>CurrentSampleIndex := CurrentSampleIndex s + 1\<rparr>"
  have lt: "CurrentSampleIndex s < AttackSampleCount s + DecaySampleCount s"
    using Suc.prems by simp
  have st: "fst (GetNextEnvelopeOutput s 0 e []) = ?s'"
    and fi: "fst (snd (GetNextEnvelopeOutput s 0 e [])) = []"
    using GetNextEnvelopeOutput_running [of 0 s e "[]"] Suc.prems lt by simp_all
  have ih: "fst (AdvanceRun e k ?s') = ?s'\<lparr>CurrentSampleIndex := CurrentSampleIndex ?s' + int k\<rparr>
      \<and> map fst (snd (AdvanceRun e k ?s')) = replicate k []"
    using Suc.prems by (intro Suc.IH) simp_all
  obtain a b c where g: "GetNextEnvelopeOutput s 0 e [] = (a, b, c)"
    by (cases "GetNextEnvelopeOutput s 0 e []") auto
  with st fi have ab: "a = ?s'" "b = []" by simp_all
  obtain p q where r: "AdvanceRun e k ?s' = (p, q)" by (cases "AdvanceRun e k ?s'") auto
  with ih have pq: "p = ?s'\<lparr>CurrentSampleIndex := CurrentSampleIndex ?s' + int k\<rparr>"
    "map fst q = replicate k []"
    by simp_all
  show ?case using g ab r pq by (simp add: algebra_simps)
qed

lemma AdvanceRun_Suc_end:
  "AdvanceRun e (Suc k) s =
     (case AdvanceRun e k s of
        (s', outs) \<Rightarrow>
          (case GetNextEnvelopeOutput s' 0 e [] of
             (s'', FinishedFrames, v) \<Rightarrow> (s'', outs @ [(FinishedFrames, v)])))"
proof (induction k arbitrary: s)
  case 0
  then show ?case by (simp split: prod.splits)
next
  case (Suc k)
  obtain s1 f1 v1 where g: "GetNextEnvelopeOutput s 0 e [] = (s1, f1, v1)"
    by (cases "GetNextEnvelopeOutput s 0 e []") auto
  obtain t outs where r: "AdvanceRun e k s1 = (t, outs)"
    by (cases "AdvanceRun e k s1") auto
  obtain t' f' v' where g': "GetNextEnvelopeOutput t 0 e [] = (t', f', v')"
    by (cases "GetNextEnvelopeOutput t 0 e []") auto
  have inner: "AdvanceRun e (Suc k) s1 = (t', outs @ [(f', v')])"
    by (subst Suc.IH) (simp add: r g')
  have lhs: "AdvanceRun e (Suc (Suc k)) s = (t', (f1, v1) # outs @ [(f', v')])"
    by (simp only: AdvanceRun.simps(2) [of e "Suc k" s] g prod.case inner)
  have mid: "AdvanceRun e (Suc k) s = (t, (f1, v1) # outs)"
    by (simp add: g r)
  show ?case
    by (simp only: lhs mid prod.case g') simp
qed



text \<open>
  Claim C4, as stated: with \<open>A\<close> attack and \<open>D\<close> decay samples, \<open>A + D\<close> calls from
  index \<open>0\<close> report one finished frame, on the last of them. For \<open>A = D = 1\<close> the two
  calls report none, and leave the index at \<open>2\<close>, not at \<open>INDEX_NONE\<close>.
\<close>

theorem C4_completion_counterexample:
  "map fst (snd (AdvanceRun 64 2 (TestEnvelope 0 1 1))) = [[], []]
   \<and> CurrentSampleIndex (fst (AdvanceRun 64 2 (TestEnvelope 0 1 1))) = 2"
  by (simp add: numeral_2_eq_2 GetNextEnvelopeOutput_def TestEnvelope_def FEnvelopeState_init_def
      INDEX_NONE_def Pow_def Let_def wrap_int32_def)

text \<open>
  Claim C4, amended. For \<open>A \<ge> 1\<close> and \<open>D \<ge> 1\<close> whose sum is an \<^verbatim>\<open>int32\<close>
  (\<open>A + D < 2^31\<close>), the \<open>A + D\<close> calls from index \<open>0\<close> each produce an envelope
  sample and no finished frame, and leave the index at \<open>A + D\<close>. The call after them
  is the completion: it sets the index to \<open>INDEX_NONE\<close>, writes the value \<open>0\<close> and
  appends frame \<open>0\<close>. So a run of \<open>A + D + 1\<close> calls reports exactly one finished
  frame, on its final call.
\<close>

theorem C4_completion:
  assumes "1 \<le> AttackSampleCount s" "1 \<le> DecaySampleCount s" "CurrentSampleIndex s = 0"
    and "AttackSampleCount s + DecaySampleCount s < 2 ^ 31"
    and "n = nat (AttackSampleCount s + DecaySampleCount s)"
  shows "map fst (snd (AdvanceRun EndFrame n s)) = replicate n []
       \<and> CurrentSampleIndex (fst (AdvanceRun EndFrame n s)) = AttackSampleCount s + DecaySampleCount s
       \<and> map fst (snd (AdvanceRun EndFrame (Suc n) s)) = replicate n [] @ [[0]]
       \<and> snd (last (snd (AdvanceRun EndFrame (Suc n) s))) = 0
       \<and> fst (AdvanceRun EndFrame (Suc n) s) = s\<lparr>CurrentSampleIndex := INDEX_NONE\<rparr>"
proof -
  let ?T = "AttackSampleCount s + DecaySampleCount s"
  let ?s' = "s\<lparr>CurrentSampleIndex := ?T\<rparr>"
  have n: "int n = ?T" using assms by simp
  have run: "fst (AdvanceRun EndFrame n s) = ?s'"
    "map fst (snd (AdvanceRun EndFrame n s)) = replicate n []"
    using AdvanceRun_running [of s n EndFrame] assms n by simp_all
  have fin: "GetNextEnvelopeOutput ?s' 0 EndFrame [] = (s\<lparr>CurrentSampleIndex := INDEX_NONE\<rparr>, [0], 0)"
    using GetNextEnvelopeOutput_done [of 0 ?s' EndFrame "[]"] assms by simp
  obtain p q where r: "AdvanceRun EndFrame n s = (p, q)"
    by (cases "AdvanceRun EndFrame n s") auto
  with run have pq: "p = ?s'" "map fst q = replicate n []" by simp_all
  have last: "AdvanceRun EndFrame (Suc n) s = (s\<lparr>CurrentSampleIndex := INDEX_NONE\<rparr>, q @ [([0], 0)])"
    by (subst AdvanceRun_Suc_end) (simp add: r pq fin)
  show ?thesis using r pq last by simp
qed

text \<open>One attack and two decay samples: three silent calls, then the completion.\<close>

theorem C4_completion_witness:
  "map fst (snd (AdvanceRun 64 3 (TestEnvelope 0 1 2))) = [[], [], []]
   \<and> CurrentSampleIndex (fst (AdvanceRun 64 3 (TestEnvelope 0 1 2))) = 3
   \<and> map fst (snd (AdvanceRun 64 4 (TestEnvelope 0 1 2))) = [[], [], [], [0]]
   \<and> snd (last (snd (AdvanceRun 64 4 (TestEnvelope 0 1 2)))) = 0
   \<and> fst (AdvanceRun 64 4 (TestEnvelope 0 1 2)) = TestEnvelope INDEX_NONE 1 2"
  using C4_completion [of "TestEnvelope 0 1 2" 3 64]
  by (simp add: TestEnvelope_def FEnvelopeState_init_def numeral_3_eq_3 eval_nat_numeral)

section \<open>Parameter refresh\<close>

text \<open>
  The sample counts are at least \<open>1\<close> before the conversion, so inside the range of
  \<^verbatim>\<open>int32\<close> discarding the fractional part is rounding down. At 48 kHz the default
  times of the node give 480 and 48000 samples.
\<close>

lemma UpdateParams_EnvelopeState:
  assumes "float32 (SampleRate s * float32 (AttackTime s)) < 2 ^ 31"
    and "float32 (SampleRate s * float32 (DecayTime s)) < 2 ^ 31"
  shows "EnvelopeState (UpdateParams E s) = (EnvelopeState s)
     \<lparr>AttackSampleCount := max 1 \<lfloor>float32 (SampleRate s * float32 (AttackTime s))\<rfloor>,
      DecaySampleCount := max 1 \<lfloor>float32 (SampleRate s * float32 (DecayTime s))\<rfloor>,
      AttackCurveFactor := max (KINDA_SMALL_NUMBER E) (InAttackCurveFactor s),
      DecayCurveFactor := max (KINDA_SMALL_NUMBER E) (InDecayCurveFactor s)\<rparr>"
  using assms by (simp add: UpdateParams_def float_to_int32_max_1)

lemma UpdateParams_attack:
  assumes "float32 (SampleRate s * float32 (AttackTime s)) < 2 ^ 31"
  shows "AttackSampleCount (EnvelopeState (UpdateParams E s))
      = max 1 \<lfloor>float32 (SampleRate s * float32 (AttackTime s))\<rfloor>"
    and "AttackCurveFactor (EnvelopeState (UpdateParams E s))
      = max (KINDA_SMALL_NUMBER E) (InAttackCurveFactor s)"
  using assms by (simp_all add: UpdateParams_def float_to_int32_max_1)

lemma UpdateParams_frame:
  "CurrentSampleIndex (EnvelopeState (UpdateParams E s)) = CurrentSampleIndex (EnvelopeState s)"
  "StartingEnvelopeValue (EnvelopeState (UpdateParams E s)) = StartingEnvelopeValue (EnvelopeState s)"
  "CurrentEnvelopeValue (EnvelopeState (UpdateParams E s)) = CurrentEnvelopeValue (EnvelopeState s)"
  "bHardReset (EnvelopeState (UpdateParams E s)) = bHardReset (EnvelopeState s)"
  by (simp_all add: UpdateParams_def)

lemma UpdateParams_48k:
  assumes "SampleRate s = 48000" "AttackTime s = 1 / 100" "DecayTime s = 1"
  shows "UpdateParams E s = s\<lparr>EnvelopeState := (EnvelopeState s)
     \<lparr>AttackSampleCount := 480, DecaySampleCount := 48000,
      AttackCurveFactor := max (KINDA_SMALL_NUMBER E) (InAttackCurveFactor s),
      DecayCurveFactor := max (KINDA_SMALL_NUMBER E) (InDecayCurveFactor s)\<rparr>\<rparr>"
proof -
  have a: "float32 (SampleRate s * float32 (AttackTime s)) = 480"
    and d: "float32 (SampleRate s * float32 (DecayTime s)) = 48000"
    by (simp_all only: assms float32_values mult_1_right)
  have c: "float_to_int32 (max 1 480) = 480" "float_to_int32 (max 1 48000) = 48000"
    by (simp_all add: float_to_int32_def)
  show ?thesis
    unfolding UpdateParams_def Let_def a d c ..
qed

text \<open>
  Claim C6, as stated: the attack sample count is \<open>max(1, round(sample_rate *
  attack_seconds))\<close>. At 48 kHz an attack time of \<open>2^-14\<close> s is \<open>2.9296875\<close> samples,
  a binary32 value: the conversion to \<^verbatim>\<open>int32\<close> gives \<open>2\<close>, rounding to nearest gives
  \<open>3\<close>.
\<close>

theorem C6_update_params_counterexample:
  "AttackSampleCount (EnvelopeState (UpdateParams TestEngine (TestOperator\<lparr>AttackTime := 1 / 16384\<rparr>))) = 2
   \<and> max 1 (round (SampleRate (TestOperator\<lparr>AttackTime := 1 / 16384\<rparr>)
                     * AttackTime (TestOperator\<lparr>AttackTime := 1 / 16384\<rparr>))) = (3::int)"
proof -
  let ?s = "TestOperator\<lparr>AttackTime := 1 / 16384\<rparr>"
  have f: "SampleRate ?s = 48000" "AttackTime ?s = 1 / 16384"
    by (simp_all add: TestOperator_def FLowPassGateOperator_init_def)
  have p: "float32 (SampleRate ?s * float32 (AttackTime ?s)) = 375 / 128"
    by (simp only: f float32_values)
  have a: "float_to_int32 (max 1 (375 / 128)) = 2"
    by (simp add: float_to_int32_def)
  have count: "AttackSampleCount (EnvelopeState (UpdateParams TestEngine ?s)) = 2"
    unfolding UpdateParams_def Let_def p a by simp
  have b: "round (375 / 128 :: real) = 3"
    by (rule round_unique) simp_all
  have "max 1 (round (SampleRate ?s * AttackTime ?s)) = (3::int)"
    by (simp add: f b)
  with count show ?thesis by simp
qed

text \<open>
  Claim C6, amended. After \<^verbatim>\<open>UpdateParams\<close> each sample count is the \<^verbatim>\<open>float\<close>
  product \<open>sample_rate * seconds\<close> (of the time as a \<^verbatim>\<open>float\<close>, rounded to binary32)
  with its fractional part discarded, raised to at least \<open>1\<close>, when the time is in the
  range of \<^verbatim>\<open>float\<close> and that product is below \<open>2^31\<close>; then the count is an
  \<^verbatim>\<open>int32\<close> and at least \<open>1\<close>. Each curve factor
  is \<open>max(epsilon, raw input)\<close> and strictly positive. So the divisors of the two
  fractions are not zero and the exponents of \<^verbatim>\<open>Pow\<close> are positive.
\<close>

theorem C6_update_params:
  assumes "0 < KINDA_SMALL_NUMBER E"
    and "float32 (SampleRate s * float32 (AttackTime s)) < 2 ^ 31"
    and "float32 (SampleRate s * float32 (DecayTime s)) < 2 ^ 31"
    and "\<bar>AttackTime s\<bar> \<le> FLT_MAX" "\<bar>DecayTime s\<bar> \<le> FLT_MAX"
  shows "AttackSampleCount (EnvelopeState (UpdateParams E s))
           = max 1 \<lfloor>float32 (SampleRate s * float32 (AttackTime s))\<rfloor>
       \<and> DecaySampleCount (EnvelopeState (UpdateParams E s))
           = max 1 \<lfloor>float32 (SampleRate s * float32 (DecayTime s))\<rfloor>
       \<and> 1 \<le> AttackSampleCount (EnvelopeState (UpdateParams E s))
       \<and> AttackSampleCount (EnvelopeState (UpdateParams E s)) < 2 ^ 31
       \<and> 1 \<le> DecaySampleCount (EnvelopeState (UpdateParams E s))
       \<and> DecaySampleCount (EnvelopeState (UpdateParams E s)) < 2 ^ 31
       \<and> AttackCurveFactor (EnvelopeState (UpdateParams E s))
            = max (KINDA_SMALL_NUMBER E) (InAttackCurveFactor s)
       \<and> DecayCurveFactor (EnvelopeState (UpdateParams E s))
            = max (KINDA_SMALL_NUMBER E) (InDecayCurveFactor s)
       \<and> 0 < AttackCurveFactor (EnvelopeState (UpdateParams E s))
       \<and> 0 < DecayCurveFactor (EnvelopeState (UpdateParams E s))
       \<and> real_of_int (AttackSampleCount (EnvelopeState (UpdateParams E s))) \<noteq> 0
       \<and> real_of_int (DecaySampleCount (EnvelopeState (UpdateParams E s))) \<noteq> 0"
proof -
  have a: "\<lfloor>float32 (SampleRate s * float32 (AttackTime s))\<rfloor> < 2 ^ 31"
    using assms(2) by (simp add: floor_less_iff)
  have d: "\<lfloor>float32 (SampleRate s * float32 (DecayTime s))\<rfloor> < 2 ^ 31"
    using assms(3) by (simp add: floor_less_iff)
  have a0: "max 1 \<lfloor>float32 (SampleRate s * float32 (AttackTime s))\<rfloor> \<noteq> 0"
    and d0: "max 1 \<lfloor>float32 (SampleRate s * float32 (DecayTime s))\<rfloor> \<noteq> 0"
    by linarith+
  show ?thesis
    using assms(1) a d a0 d0
    by (simp add: UpdateParams_EnvelopeState [OF assms(2,3)] less_max_iff_disj)
qed

text \<open>
  The defaults at 48 kHz (10 ms attack, 1 s decay) with a negative decay curve input.
  The attack time \<open>0.01\<close> is \<open>0.00999999977...\<close> as a \<^verbatim>\<open>float\<close>; the exact product
  with \<open>48000\<close> is below \<open>480\<close>, the \<^verbatim>\<open>float\<close> product is \<open>480\<close>.
\<close>

theorem C6_update_params_witness:
  "AttackSampleCount (EnvelopeState (UpdateParams TestEngine (TestOperator\<lparr>InDecayCurveFactor := - 2\<rparr>))) = 480
   \<and> DecaySampleCount (EnvelopeState (UpdateParams TestEngine (TestOperator\<lparr>InDecayCurveFactor := - 2\<rparr>))) = 48000
   \<and> AttackCurveFactor (EnvelopeState (UpdateParams TestEngine (TestOperator\<lparr>InDecayCurveFactor := - 2\<rparr>))) = 1
   \<and> DecayCurveFactor (EnvelopeState (UpdateParams TestEngine (TestOperator\<lparr>InDecayCurveFactor := - 2\<rparr>))) = 1 / 10000
   \<and> 48000 * float32 (1 / 100) < (480::real)"
proof -
  let ?s = "TestOperator\<lparr>InDecayCurveFactor := - 2\<rparr>"
  have f: "SampleRate ?s = 48000" "AttackTime ?s = 1 / 100" "DecayTime ?s = 1"
    "InAttackCurveFactor ?s = 1" "InDecayCurveFactor ?s = - 2"
    by (simp_all add: TestOperator_def FLowPassGateOperator_init_def)
  have k: "0 < KINDA_SMALL_NUMBER TestEngine" "KINDA_SMALL_NUMBER TestEngine = 1 / 10000"
    by (simp_all add: TestEngine_def)
  have r: "float32 (SampleRate ?s * float32 (AttackTime ?s)) = 480"
    "float32 (SampleRate ?s * float32 (DecayTime ?s)) = 48000"
    by (simp_all only: f float32_values mult_1_right)
  have h: "float32 (SampleRate ?s * float32 (AttackTime ?s)) < 2 ^ 31"
    "float32 (SampleRate ?s * float32 (DecayTime ?s)) < 2 ^ 31"
    unfolding r by simp_all
  have below: "48000 * float32 (1 / 100) < (480::real)"
    by (simp only: float32_values)
  have r': "float32 (48000 * float32 (1 / 100)) = 480" "float32 (48000 * float32 1) = 48000"
    by (simp_all only: float32_values mult_1_right)
  have m: "\<bar>AttackTime ?s\<bar> \<le> FLT_MAX" "\<bar>DecayTime ?s\<bar> \<le> FLT_MAX"
    unfolding f by (simp_all add: FLT_MAX_def)
  show ?thesis
    using C6_update_params [OF k(1) h m, unfolded f k(2)] below by (simp add: r')
qed

section \<open>The trigger handler\<close>

text \<open>
  The engine does nothing on a sub-range that does not start the block, and the first
  call after a reset of the index is the first attack sample.
\<close>

lemma fold_TriggerFrame: "fold TriggerFrame fs t = t @ fs"
  by (induction fs arbitrary: t) (simp_all add: TriggerFrame_def)

lemma Pow_zero_base: "0 < y \<Longrightarrow> Pow 0 y = 0"
  by (simp add: Pow_def)

lemma GetNextEnvelopeOutput_skipped:
  "0 < StartFrame \<Longrightarrow> GetNextEnvelopeOutput s StartFrame EndFrame fin = (s, fin, 0)"
  by (simp add: GetNextEnvelopeOutput_def)

lemma GetNextEnvelopeOutput_first_attack:
  assumes "CurrentSampleIndex e = 0" "1 \<le> AttackSampleCount e" "0 < AttackCurveFactor e"
  shows "GetNextEnvelopeOutput e 0 EndFrame fin =
     (e\<lparr>CurrentSampleIndex := 1\<rparr>, fin,
      if 1 < AttackSampleCount e then StartingEnvelopeValue e else 1)"
  using assms
  by (simp add: GetNextEnvelopeOutput_def INDEX_NONE_def Pow_zero_base wrap_int32_def)

lemma OnTrigger_unfold:
  "OnTrigger E StartFrame EndFrame s =
     (case GetNextEnvelopeOutput (Retriggered E s) StartFrame EndFrame [] of
        (st, FinishedFrames, v) \<Rightarrow>
          s\<lparr>EnvelopeState := st, OutEnvelope := v,
            OnDone := OnDone s @ FinishedFrames,
            OnAttackTrigger := OnAttackTrigger s @ [StartFrame]\<rparr>)"
  by (simp add: OnTrigger_def Retriggered_def Let_def fold_TriggerFrame TriggerFrame_def
      UpdateParams_def split: prod.splits)

lemma Retriggered_fields:
  "CurrentSampleIndex (Retriggered E s) = 0"
  "StartingEnvelopeValue (Retriggered E s) =
     (if bHardReset (EnvelopeState s) then 0 else CurrentEnvelopeValue (EnvelopeState s))"
  "AttackSampleCount (Retriggered E s) = AttackSampleCount (EnvelopeState (UpdateParams E s))"
  "DecaySampleCount (Retriggered E s) = DecaySampleCount (EnvelopeState (UpdateParams E s))"
  "AttackCurveFactor (Retriggered E s) = AttackCurveFactor (EnvelopeState (UpdateParams E s))"
  by (simp_all add: Retriggered_def)

text \<open>
  Claim C2, as stated: for a trigger at any frame of the block, also a frame \<open>f > 0\<close>,
  the handler's call of the engine produces the first attack sample and moves the index
  to \<open>1\<close>. For a trigger at frame \<open>1\<close> with an instant attack (attack time \<open>0\<close>, one
  attack sample) the index stays \<open>0\<close> and the value written is \<open>0\<close>, not \<open>1\<close>.
\<close>

theorem C2_trigger_handler_counterexample:
  "CurrentSampleIndex (EnvelopeState (OnTrigger TestEngine 1 4 (TestOperator\<lparr>AttackTime := 0\<rparr>))) = 0
   \<and> AttackSampleCount (EnvelopeState (OnTrigger TestEngine 1 4 (TestOperator\<lparr>AttackTime := 0\<rparr>))) = 1
   \<and> OutEnvelope (OnTrigger TestEngine 1 4 (TestOperator\<lparr>AttackTime := 0\<rparr>)) = 0"
proof -
  let ?i = "TestOperator\<lparr>AttackTime := 0\<rparr>"
  have p: "float32 (SampleRate ?i * float32 (AttackTime ?i)) = 0"
    by (simp add: float32_values)
  have a: "AttackSampleCount (EnvelopeState (UpdateParams TestEngine ?i)) = 1"
    unfolding UpdateParams_def Let_def p by (simp add: float_to_int32_def)
  have "OnTrigger TestEngine 1 4 ?i =
      ?i\<lparr>EnvelopeState := Retriggered TestEngine ?i, OutEnvelope := 0,
         OnDone := OnDone ?i @ [], OnAttackTrigger := OnAttackTrigger ?i @ [1]\<rparr>"
    unfolding OnTrigger_unfold by (simp add: GetNextEnvelopeOutput_skipped)
  then show ?thesis
    using a by (simp add: Retriggered_fields)
qed

text \<open>
  Claim C2, amended. Let the attack time be in the range of \<^verbatim>\<open>float\<close> and the
  \<^verbatim>\<open>float\<close> product \<open>sample_rate * attack_seconds\<close> be below \<open>2^31\<close>, so that the
  attack sample count it gives is an \<^verbatim>\<open>int32\<close>. For a trigger at
  frame \<open>0\<close> the handler resets the index to \<open>0\<close> and its call of the engine produces
  the first attack sample (the starting value when there is more than one attack
  sample, \<open>1\<close> for an instant attack) and moves the index to \<open>1\<close>. For a trigger at a
  frame \<open>f > 0\<close> the handler resets the index to \<open>0\<close>, the engine is a no-op (its guard
  \<^verbatim>\<open>StartFrame > 0\<close>), the value written is \<open>0\<close> and the index stays \<open>0\<close>. In both
  cases the starting value is \<^verbatim>\<open>bHardReset ? 0 : CurrentEnvelopeValue\<close>, the attack
  sample count is the refreshed one (the \<^verbatim>\<open>float\<close> product with its fractional part
  discarded, at least \<open>1\<close>), the attack-started event is emitted at the trigger's
  frame, and no done event is.
\<close>

theorem C2_trigger_handler:
  assumes "0 < KINDA_SMALL_NUMBER E"
    and "float32 (SampleRate s * float32 (AttackTime s)) < 2 ^ 31"
    and "\<bar>AttackTime s\<bar> \<le> FLT_MAX"
  shows "CurrentSampleIndex (EnvelopeState (OnTrigger E 0 EndFrame s)) = 1
       \<and> OutEnvelope (OnTrigger E 0 EndFrame s) =
           (if 1 < AttackSampleCount (EnvelopeState (OnTrigger E 0 EndFrame s))
            then StartingEnvelopeValue (EnvelopeState (OnTrigger E 0 EndFrame s)) else 1)
       \<and> (0 < StartFrame \<longrightarrow>
            CurrentSampleIndex (EnvelopeState (OnTrigger E StartFrame EndFrame s)) = 0
            \<and> OutEnvelope (OnTrigger E StartFrame EndFrame s) = 0)
       \<and> (0 \<le> StartFrame \<longrightarrow>
            StartingEnvelopeValue (EnvelopeState (OnTrigger E StartFrame EndFrame s)) =
              (if bHardReset (EnvelopeState s) then 0 else CurrentEnvelopeValue (EnvelopeState s))
            \<and> AttackSampleCount (EnvelopeState (OnTrigger E StartFrame EndFrame s)) =
                 max 1 \<lfloor>float32 (SampleRate s * float32 (AttackTime s))\<rfloor>
            \<and> 1 \<le> AttackSampleCount (EnvelopeState (OnTrigger E StartFrame EndFrame s))
            \<and> OnAttackTrigger (OnTrigger E StartFrame EndFrame s) = OnAttackTrigger s @ [StartFrame]
            \<and> OnDone (OnTrigger E StartFrame EndFrame s) = OnDone s)"
proof -
  let ?e = "Retriggered E s"
  have idx: "CurrentSampleIndex ?e = 0"
    and st: "StartingEnvelopeValue ?e =
      (if bHardReset (EnvelopeState s) then 0 else CurrentEnvelopeValue (EnvelopeState s))"
    by (simp_all add: Retriggered_fields)
  have a: "AttackSampleCount ?e = max 1 \<lfloor>float32 (SampleRate s * float32 (AttackTime s))\<rfloor>"
    by (simp add: Retriggered_fields UpdateParams_attack [OF assms(2)])
  have att: "1 \<le> AttackSampleCount ?e"
    unfolding a by simp
  have acf: "0 < AttackCurveFactor ?e"
    using assms(1) by (simp add: Retriggered_fields UpdateParams_attack [OF assms(2)] less_max_iff_disj)
  have zero: "GetNextEnvelopeOutput ?e 0 EndFrame [] =
      (?e\<lparr>CurrentSampleIndex := 1\<rparr>, [], if 1 < AttackSampleCount ?e then StartingEnvelopeValue ?e else 1)"
    using idx att acf by (rule GetNextEnvelopeOutput_first_attack)
  have first: "CurrentSampleIndex (EnvelopeState (OnTrigger E 0 EndFrame s)) = 1
       \<and> OutEnvelope (OnTrigger E 0 EndFrame s) =
           (if 1 < AttackSampleCount (EnvelopeState (OnTrigger E 0 EndFrame s))
            then StartingEnvelopeValue (EnvelopeState (OnTrigger E 0 EndFrame s)) else 1)"
    by (simp add: OnTrigger_unfold zero)
  have later: "CurrentSampleIndex (EnvelopeState (OnTrigger E StartFrame EndFrame s)) = 0
            \<and> OutEnvelope (OnTrigger E StartFrame EndFrame s) = 0" if "0 < StartFrame"
    using that idx by (simp add: OnTrigger_unfold GetNextEnvelopeOutput_skipped)
  have frame: "StartingEnvelopeValue (EnvelopeState (OnTrigger E StartFrame EndFrame s)) =
              (if bHardReset (EnvelopeState s) then 0 else CurrentEnvelopeValue (EnvelopeState s))
            \<and> AttackSampleCount (EnvelopeState (OnTrigger E StartFrame EndFrame s)) =
                 max 1 \<lfloor>float32 (SampleRate s * float32 (AttackTime s))\<rfloor>
            \<and> 1 \<le> AttackSampleCount (EnvelopeState (OnTrigger E StartFrame EndFrame s))
            \<and> OnAttackTrigger (OnTrigger E StartFrame EndFrame s) = OnAttackTrigger s @ [StartFrame]
            \<and> OnDone (OnTrigger E StartFrame EndFrame s) = OnDone s" if "0 \<le> StartFrame"
  proof (cases "StartFrame = 0")
    case True
    then show ?thesis using st a by (simp add: OnTrigger_unfold zero)
  next
    case False
    with that have "0 < StartFrame" by simp
    then show ?thesis using st a by (simp add: OnTrigger_unfold GetNextEnvelopeOutput_skipped)
  qed
  show ?thesis using first later frame by blast
qed

text \<open>
  The constructed operator (480 attack samples) with a trigger at frame \<open>0\<close>, the
  same with an instant attack, and a trigger at frame \<open>2\<close>.
\<close>

theorem C2_trigger_handler_witness:
  "CurrentSampleIndex (EnvelopeState (OnTrigger TestEngine 0 4 TestOperator)) = 1
   \<and> OutEnvelope (OnTrigger TestEngine 0 4 TestOperator) = 0
   \<and> AttackSampleCount (EnvelopeState (OnTrigger TestEngine 0 4 TestOperator)) = 480
   \<and> CurrentSampleIndex (EnvelopeState (OnTrigger TestEngine 0 4 (TestOperator\<lparr>AttackTime := 0\<rparr>))) = 1
   \<and> OutEnvelope (OnTrigger TestEngine 0 4 (TestOperator\<lparr>AttackTime := 0\<rparr>)) = 1
   \<and> CurrentSampleIndex (EnvelopeState (OnTrigger TestEngine 2 4 TestOperator)) = 0
   \<and> OutEnvelope (OnTrigger TestEngine 2 4 TestOperator) = 0
   \<and> OnAttackTrigger (OnTrigger TestEngine 2 4 TestOperator) = [2]
   \<and> OnDone (OnTrigger TestEngine 2 4 TestOperator) = []"
proof -
  have k: "0 < KINDA_SMALL_NUMBER TestEngine"
    by (simp add: TestEngine_def)
  let ?i = "TestOperator\<lparr>AttackTime := 0\<rparr>"
  have t: "SampleRate TestOperator = 48000" "AttackTime TestOperator = 1 / 100"
    by (simp_all add: TestOperator_def FLowPassGateOperator_init_def)
  have p: "float32 (SampleRate TestOperator * float32 (AttackTime TestOperator)) = 480"
    by (simp only: t float32_values)
  have q: "float32 (SampleRate ?i * float32 (AttackTime ?i)) = 0"
    by (simp add: float32_values)
  have r: "float32 (SampleRate TestOperator * float32 (AttackTime TestOperator)) < 2 ^ 31"
    "float32 (SampleRate ?i * float32 (AttackTime ?i)) < 2 ^ 31"
    unfolding p q by simp_all
  have f: "bHardReset (EnvelopeState TestOperator) = False"
    "CurrentEnvelopeValue (EnvelopeState TestOperator) = 0"
    "OnAttackTrigger TestOperator = []" "OnDone TestOperator = []"
    by (simp_all add: TestOperator_def FLowPassGateOperator_init_def FEnvelopeState_init_def)
  have m: "\<bar>AttackTime TestOperator\<bar> \<le> FLT_MAX" "\<bar>AttackTime ?i\<bar> \<le> FLT_MAX"
    by (simp_all add: t FLT_MAX_def)
  note a = C2_trigger_handler [OF k r(1) m(1), of 4 0, unfolded p]
  note b = C2_trigger_handler [OF k r(2) m(2), of 4 0, unfolded q]
  note c = C2_trigger_handler [OF k r(1) m(1), of 4 2, unfolded p]
  have a': "CurrentSampleIndex (EnvelopeState (OnTrigger TestEngine 0 4 TestOperator)) = 1"
    "AttackSampleCount (EnvelopeState (OnTrigger TestEngine 0 4 TestOperator)) = 480"
    "StartingEnvelopeValue (EnvelopeState (OnTrigger TestEngine 0 4 TestOperator)) = 0"
    using a by (simp_all add: f)
  have a'': "OutEnvelope (OnTrigger TestEngine 0 4 TestOperator) = 0"
    using a a'(2,3) by simp
  have b': "CurrentSampleIndex (EnvelopeState (OnTrigger TestEngine 0 4 ?i)) = 1"
    "AttackSampleCount (EnvelopeState (OnTrigger TestEngine 0 4 ?i)) = 1"
    using b by simp_all
  have b'': "OutEnvelope (OnTrigger TestEngine 0 4 ?i) = 1"
    using b b'(2) by simp
  have c': "CurrentSampleIndex (EnvelopeState (OnTrigger TestEngine 2 4 TestOperator)) = 0"
    "OutEnvelope (OnTrigger TestEngine 2 4 TestOperator) = 0"
    "OnAttackTrigger (OnTrigger TestEngine 2 4 TestOperator) = [2]"
    "OnDone (OnTrigger TestEngine 2 4 TestOperator) = []"
    using c by (simp_all add: f)
  show ?thesis
    using a' a'' b' b'' c' by simp
qed

text \<open>
  Outside that range the conversion has no \<^verbatim>\<open>int32\<close> to give. With \<open>-2^31\<close> for the
  attack sample count (an attack time of 50000 s at 48 kHz) the handler's call of the
  engine at frame \<open>0\<close> finds the index past both phases and completes at once.
\<close>

lemma OnTrigger_attack_out_of_range:
  "AttackSampleCount (EnvelopeState (OnTrigger TestEngine 0 4 (TestOperator\<lparr>AttackTime := 50000\<rparr>))) = - (2 ^ 31)
   \<and> CurrentSampleIndex (EnvelopeState (OnTrigger TestEngine 0 4 (TestOperator\<lparr>AttackTime := 50000\<rparr>))) = INDEX_NONE
   \<and> OnDone (OnTrigger TestEngine 0 4 (TestOperator\<lparr>AttackTime := 50000\<rparr>)) = [0]"
proof -
  let ?i = "TestOperator\<lparr>AttackTime := 50000\<rparr>"
  have v: "float32 50000 = 50000" "float32 (48000 * 50000) = 48000 * 50000"
    "float32 (48000 * 1) = 48000"
    using float32_binade [of 15 50000] float32_binade [of 31 "48000 * 50000"]
      float32_binade [of 15 48000]
    by (simp_all add: RoundTiesToEven_def power_int_minus)
  have t: "SampleRate ?i = 48000" "AttackTime ?i = 50000" "DecayTime ?i = 1"
    by (simp_all add: TestOperator_def FLowPassGateOperator_init_def)
  have p: "float32 (SampleRate ?i * float32 (AttackTime ?i)) = 48000 * 50000"
    "float32 (SampleRate ?i * float32 (DecayTime ?i)) = 48000"
    by (simp_all only: t v float32_values)
  have c: "float_to_int32 (max 1 (48000 * 50000)) = - (2 ^ 31)"
    "float_to_int32 (max 1 48000) = 48000"
    by (simp_all add: float_to_int32_def)
  have u: "AttackSampleCount (EnvelopeState (UpdateParams TestEngine ?i)) = - (2 ^ 31)"
    "DecaySampleCount (EnvelopeState (UpdateParams TestEngine ?i)) = 48000"
    unfolding UpdateParams_def Let_def p c by simp_all
  have g: "GetNextEnvelopeOutput (Retriggered TestEngine ?i) 0 4 [] =
      ((Retriggered TestEngine ?i)\<lparr>CurrentSampleIndex := INDEX_NONE\<rparr>, [0], 0)"
    by (simp add: GetNextEnvelopeOutput_def Retriggered_fields u INDEX_NONE_def wrap_int32_def)
  have o: "OnDone TestOperator = []"
    by (simp add: TestOperator_def FLowPassGateOperator_init_def)
  show ?thesis
    unfolding OnTrigger_unfold g by (simp add: Retriggered_fields u o)
qed

section \<open>The filter's parameter cache\<close>

lemma Clamp_range: "lo \<le> hi \<Longrightarrow> lo \<le> Clamp x lo hi \<and> Clamp x lo hi \<le> hi"
  by (simp add: Clamp_def)

lemma Clamp_constants: "Clamp 0 0 10 = 0" "Clamp 0 0 1 = 0"
  by (simp_all add: Clamp_def)

lemma bNeedsUpdate_iff:
  "bNeedsUpdate E s \<longleftrightarrow>
     SMALL_NUMBER E < \<bar>PreviousFrequency s - Clamp (CutOffFrequency s) 0 (0.5 * SampleRate s)\<bar>
     \<or> SMALL_NUMBER E < \<bar>PreviousResonance s\<bar>
     \<or> SMALL_NUMBER E < \<bar>PreviousBandStopControl s\<bar>"
  by (auto simp add: bNeedsUpdate_def IsNearlyEqual_def Clamp_constants Let_def)

lemma HandleLowPassFilter_commit:
  "bNeedsUpdate E s \<Longrightarrow>
   HandleLowPassFilter E s =
     s\<lparr>VariableFilter :=
         Update E (SetBandStopControl E 0
           (SetFrequency E (Clamp (CutOffFrequency s) 0 (0.5 * SampleRate s))
             (SetQ E 0 (VariableFilter s)))),
       PreviousFrequency := Clamp (CutOffFrequency s) 0 (0.5 * SampleRate s),
       PreviousResonance := 0,
       PreviousBandStopControl := 0\<rparr>"
  by (simp add: HandleLowPassFilter_def Clamp_constants Let_def)

lemma HandleLowPassFilter_skip:
  "\<not> bNeedsUpdate E s \<Longrightarrow> HandleLowPassFilter E s = s"
  by (simp add: HandleLowPassFilter_def Let_def)

lemma HandleLowPassFilter_settled:
  assumes "0 \<le> SMALL_NUMBER E"
  shows "\<not> bNeedsUpdate E (HandleLowPassFilter E s)"
proof (cases "bNeedsUpdate E s")
  case True
  then show ?thesis
    using assms by (simp add: HandleLowPassFilter_commit bNeedsUpdate_iff)
next
  case False
  then show ?thesis by (simp add: HandleLowPassFilter_skip)
qed

text \<open>
  Claim C9. With a tolerance in \<open>[0, 1)\<close>: the commit is performed on the first call
  (the three cache fields hold the sentinel \<open>-1\<close>, which is further than the tolerance
  from the resonance \<open>0\<close>, and from every clamped cutoff when the sample rate is not
  negative), and on every call whose clamped cutoff is further than the tolerance from
  the cached frequency; a commit sets Q, frequency and band-stop control, updates the
  filter and stores the three values. Otherwise the call changes nothing. After a call,
  a call with the same cutoff and sample rate and the same cache (whatever else of the
  operator changed in between) commits nothing and is a no-op; in particular the call
  is idempotent.
\<close>

theorem C9_commit_cache:
  assumes "0 \<le> SMALL_NUMBER E" "SMALL_NUMBER E < 1"
  shows "(PreviousFrequency s = - 1 \<and> PreviousResonance s = - 1 \<and> PreviousBandStopControl s = - 1
            \<longrightarrow> bNeedsUpdate E s)
       \<and> (0 \<le> SampleRate s \<longrightarrow>
            SMALL_NUMBER E < \<bar>- 1 - Clamp (CutOffFrequency s) 0 (0.5 * SampleRate s)\<bar>)
       \<and> (SMALL_NUMBER E < \<bar>PreviousFrequency s - Clamp (CutOffFrequency s) 0 (0.5 * SampleRate s)\<bar>
            \<longrightarrow> bNeedsUpdate E s)
       \<and> (bNeedsUpdate E s \<longrightarrow>
            HandleLowPassFilter E s =
              s\<lparr>VariableFilter :=
                  Update E (SetBandStopControl E 0
                    (SetFrequency E (Clamp (CutOffFrequency s) 0 (0.5 * SampleRate s))
                      (SetQ E 0 (VariableFilter s)))),
                PreviousFrequency := Clamp (CutOffFrequency s) 0 (0.5 * SampleRate s),
                PreviousResonance := 0,
                PreviousBandStopControl := 0\<rparr>)
       \<and> (\<not> bNeedsUpdate E s \<longrightarrow> HandleLowPassFilter E s = s)
       \<and> (PreviousFrequency s2 = PreviousFrequency (HandleLowPassFilter E s)
            \<and> PreviousResonance s2 = PreviousResonance (HandleLowPassFilter E s)
            \<and> PreviousBandStopControl s2 = PreviousBandStopControl (HandleLowPassFilter E s)
            \<and> CutOffFrequency s2 = CutOffFrequency s \<and> SampleRate s2 = SampleRate s
            \<longrightarrow> \<not> bNeedsUpdate E s2 \<and> HandleLowPassFilter E s2 = s2)
       \<and> HandleLowPassFilter E (HandleLowPassFilter E s) = HandleLowPassFilter E s"
proof -
  have sentinel: "bNeedsUpdate E s" if "PreviousResonance s = - 1"
    using that assms by (simp add: bNeedsUpdate_iff)
  have apart: "SMALL_NUMBER E < \<bar>- 1 - Clamp (CutOffFrequency s) 0 (0.5 * SampleRate s)\<bar>"
    if "0 \<le> SampleRate s"
  proof -
    have "0 \<le> Clamp (CutOffFrequency s) 0 (0.5 * SampleRate s)"
      using that Clamp_range [of 0 "0.5 * SampleRate s" "CutOffFrequency s"] by simp
    then show ?thesis using assms by simp
  qed
  have moved: "bNeedsUpdate E s"
    if "SMALL_NUMBER E < \<bar>PreviousFrequency s - Clamp (CutOffFrequency s) 0 (0.5 * SampleRate s)\<bar>"
    using that by (simp add: bNeedsUpdate_iff)
  have settled: "\<not> bNeedsUpdate E (HandleLowPassFilter E s)"
    using assms(1) by (rule HandleLowPassFilter_settled)
  have again: "\<not> bNeedsUpdate E s2 \<and> HandleLowPassFilter E s2 = s2"
    if "PreviousFrequency s2 = PreviousFrequency (HandleLowPassFilter E s)"
      "PreviousResonance s2 = PreviousResonance (HandleLowPassFilter E s)"
      "PreviousBandStopControl s2 = PreviousBandStopControl (HandleLowPassFilter E s)"
      "CutOffFrequency s2 = CutOffFrequency s" "SampleRate s2 = SampleRate s"
  proof -
    have same: "CutOffFrequency (HandleLowPassFilter E s) = CutOffFrequency s"
      "SampleRate (HandleLowPassFilter E s) = SampleRate s"
      by (simp_all add: HandleLowPassFilter_def Let_def)
    have "bNeedsUpdate E s2 = bNeedsUpdate E (HandleLowPassFilter E s)"
      by (simp add: bNeedsUpdate_iff that same)
    with settled have "\<not> bNeedsUpdate E s2" by simp
    then show ?thesis by (simp add: HandleLowPassFilter_skip)
  qed
  have idem: "HandleLowPassFilter E (HandleLowPassFilter E s) = HandleLowPassFilter E s"
    using settled by (rule HandleLowPassFilter_skip)
  show ?thesis
    using sentinel apart moved again idem HandleLowPassFilter_commit [of E s]
      HandleLowPassFilter_skip [of E s]
    by blast
qed

text \<open>
  The constructed operator (cutoff 1000 Hz at 48 kHz): the first call commits, a second
  call with the cutoff at 2000 Hz commits, a second call with the same cutoff does not.
\<close>

theorem C9_commit_cache_witness:
  "bNeedsUpdate TestEngine TestOperator
   \<and> VariableFilter (HandleLowPassFilter TestEngine TestOperator) = (1000, 0, 0)
   \<and> PreviousFrequency (HandleLowPassFilter TestEngine TestOperator) = 1000
   \<and> PreviousResonance (HandleLowPassFilter TestEngine TestOperator) = 0
   \<and> PreviousBandStopControl (HandleLowPassFilter TestEngine TestOperator) = 0
   \<and> bNeedsUpdate TestEngine ((HandleLowPassFilter TestEngine TestOperator)\<lparr>CutOffFrequency := 2000\<rparr>)
   \<and> \<not> bNeedsUpdate TestEngine ((HandleLowPassFilter TestEngine TestOperator)\<lparr>AudioInput := [1, 1, 1, 1]\<rparr>)
   \<and> HandleLowPassFilter TestEngine ((HandleLowPassFilter TestEngine TestOperator)\<lparr>AudioInput := [1, 1, 1, 1]\<rparr>)
       = (HandleLowPassFilter TestEngine TestOperator)\<lparr>AudioInput := [1, 1, 1, 1]\<rparr>
   \<and> HandleLowPassFilter TestEngine (HandleLowPassFilter TestEngine TestOperator)
       = HandleLowPassFilter TestEngine TestOperator"
proof -
  have tol: "0 \<le> SMALL_NUMBER TestEngine" "SMALL_NUMBER TestEngine < 1"
    by (simp_all add: TestEngine_def)
  let ?s1 = "HandleLowPassFilter TestEngine TestOperator"
  have tolv: "SMALL_NUMBER TestEngine = 1 / 100000000"
    by (simp add: TestEngine_def)
  have f: "PreviousFrequency TestOperator = - 1" "PreviousResonance TestOperator = - 1"
    "PreviousBandStopControl TestOperator = - 1" "CutOffFrequency TestOperator = 1000"
    "SampleRate TestOperator = 48000" "VariableFilter TestOperator = (0, 0, 0)"
    by (simp_all add: TestOperator_def FLowPassGateOperator_init_def)
  have c: "Clamp 1000 0 24000 = 1000" "Clamp 2000 0 24000 = 2000"
    by (simp_all add: Clamp_def)
  have ops: "Update TestEngine (SetBandStopControl TestEngine 0
       (SetFrequency TestEngine 1000 (SetQ TestEngine 0 (0, 0, 0)))) = (1000, 0, 0)"
    by (simp add: TestEngine_def)
  note first = C9_commit_cache [OF tol, of TestOperator TestOperator]
  have need: "bNeedsUpdate TestEngine TestOperator"
    using first f(1-3) by blast
  have "?s1 = TestOperator\<lparr>VariableFilter :=
         Update TestEngine (SetBandStopControl TestEngine 0
           (SetFrequency TestEngine (Clamp (CutOffFrequency TestOperator) 0 (0.5 * SampleRate TestOperator))
             (SetQ TestEngine 0 (VariableFilter TestOperator)))),
       PreviousFrequency := Clamp (CutOffFrequency TestOperator) 0 (0.5 * SampleRate TestOperator),
       PreviousResonance := 0,
       PreviousBandStopControl := 0\<rparr>"
    using first need by blast
  then have s1: "?s1 = TestOperator\<lparr>VariableFilter := (1000, 0, 0), PreviousFrequency := 1000,
      PreviousResonance := 0, PreviousBandStopControl := 0\<rparr>"
    by (simp add: f c ops)
  let ?s2 = "?s1\<lparr>CutOffFrequency := 2000\<rparr>"
  have "SMALL_NUMBER TestEngine < \<bar>PreviousFrequency ?s2 - Clamp (CutOffFrequency ?s2) 0 (0.5 * SampleRate ?s2)\<bar>"
    by (simp add: s1 f c tolv)
  with C9_commit_cache [OF tol, of ?s2 TestOperator]
  have moved: "bNeedsUpdate TestEngine ?s2" by blast
  let ?s3 = "?s1\<lparr>AudioInput := [1, 1, 1, 1]\<rparr>"
  have "PreviousFrequency ?s3 = PreviousFrequency ?s1 \<and> PreviousResonance ?s3 = PreviousResonance ?s1
      \<and> PreviousBandStopControl ?s3 = PreviousBandStopControl ?s1
      \<and> CutOffFrequency ?s3 = CutOffFrequency TestOperator \<and> SampleRate ?s3 = SampleRate TestOperator"
    by (simp add: s1)
  with C9_commit_cache [OF tol, of TestOperator ?s3]
  have again: "\<not> bNeedsUpdate TestEngine ?s3 \<and> HandleLowPassFilter TestEngine ?s3 = ?s3"
    by blast
  have idem: "HandleLowPassFilter TestEngine ?s1 = ?s1"
    using first by blast
  have vals: "VariableFilter ?s1 = (1000, 0, 0)" "PreviousFrequency ?s1 = 1000"
    "PreviousResonance ?s1 = 0" "PreviousBandStopControl ?s1 = 0"
    by (simp_all add: s1)
  show ?thesis
    using need vals moved again idem by blast
qed

section \<open>A block of the operator\<close>

text \<open>
  A property that both handlers keep is kept by \<^verbatim>\<open>ExecuteBlock\<close>, and the last handler
  it runs is the one of the last sub-range.
\<close>

lemma ExecuteTriggers_invariant_aux:
  "(\<forall>a b s. P s \<longrightarrow> P (on a b s)) \<Longrightarrow> P s \<Longrightarrow> P (ExecuteTriggers on n ts s)"
  by (induction on n ts s rule: ExecuteTriggers.induct) simp_all

lemma ExecuteTriggers_invariant:
  assumes step: "\<And>a b s. P s \<Longrightarrow> P (on a b s)" and start: "P s"
  shows "P (ExecuteTriggers on n ts s)"
proof (rule ExecuteTriggers_invariant_aux)
  show "\<forall>a b s. P s \<longrightarrow> P (on a b s)" using step by blast
  show "P s" by (rule start)
qed

lemma ExecuteBlock_invariant:
  assumes "\<And>a b s. P s \<Longrightarrow> P (pre a b s)" and "\<And>a b s. P s \<Longrightarrow> P (on a b s)" and "P s"
  shows "P (ExecuteBlock pre on n ts s)"
proof (cases ts)
  case Nil
  then show ?thesis using assms(1,3) by (simp add: ExecuteBlock_def)
next
  case (Cons t ts')
  have "P (if 0 < t then pre 0 t s else s)" using assms(1,3) by simp
  then have "P (ExecuteTriggers on n (t # ts') (if 0 < t then pre 0 t s else s))"
    using assms(2) by (rule ExecuteTriggers_invariant [rotated])
  then show ?thesis using Cons by (simp add: ExecuteBlock_def)
qed

lemma ExecuteTriggers_last_aux:
  "(\<forall>a b s. P s \<longrightarrow> P (on a b s)) \<Longrightarrow> ts \<noteq> [] \<Longrightarrow> P s \<Longrightarrow>
   \<exists>s'. P s' \<and> ExecuteTriggers on n ts s = on (last ts) n s'"
  by (induction on n ts s rule: ExecuteTriggers.induct) auto

lemma ExecuteBlock_last:
  assumes "\<And>a b s. P s \<Longrightarrow> P (pre a b s)" and "\<And>a b s. P s \<Longrightarrow> P (on a b s)" and "P s"
  shows "\<exists>s'. P s' \<and>
     ExecuteBlock pre on n ts s = (if ts = [] then pre 0 n s' else on (last ts) n s')"
proof (cases ts)
  case Nil
  then show ?thesis using assms(3) by (auto simp add: ExecuteBlock_def)
next
  case (Cons t ts')
  have step: "\<forall>a b s. P s \<longrightarrow> P (on a b s)" using assms(2) by blast
  have start: "P (if 0 < t then pre 0 t s else s)" using assms(1,3) by simp
  have "ts \<noteq> []" using Cons by simp
  from ExecuteTriggers_last_aux [OF step this start, of n]
  show ?thesis using Cons by (auto simp add: ExecuteBlock_def)
qed

lemma PreTrigger_unfold:
  "PreTrigger StartFrame EndFrame s =
     (case GetNextEnvelopeOutput (EnvelopeState s) StartFrame EndFrame [] of
        (st, FinishedFrames, v) \<Rightarrow>
          s\<lparr>EnvelopeState := st, OutEnvelope := v, OnDone := OnDone s @ FinishedFrames\<rparr>)"
  by (simp add: PreTrigger_def fold_TriggerFrame)

lemma GetNextEnvelopeOutput_finished:
  "fst (snd (GetNextEnvelopeOutput e StartFrame EndFrame fin)) = fin
   \<or> fst (snd (GetNextEnvelopeOutput e StartFrame EndFrame fin)) = fin @ [0]"
  by (simp add: GetNextEnvelopeOutput_def Let_def)

lemma GetNextEnvelopeOutput_frame:
  "CurrentEnvelopeValue (fst (GetNextEnvelopeOutput e StartFrame EndFrame fin)) = CurrentEnvelopeValue e"
  "bHardReset (fst (GetNextEnvelopeOutput e StartFrame EndFrame fin)) = bHardReset e"
  by (simp_all add: GetNextEnvelopeOutput_def Let_def)

lemma PreTrigger_SameOutside: "SameOutside s0 s \<Longrightarrow> SameOutside s0 (PreTrigger a b s)"
  by (cases "GetNextEnvelopeOutput (EnvelopeState s) a b []")
    (use GetNextEnvelopeOutput_frame [of "EnvelopeState s" a b "[]"] in
      \<open>simp add: SameOutside_def PreTrigger_unfold\<close>)

lemma Retriggered_frame:
  "CurrentEnvelopeValue (Retriggered E s) = CurrentEnvelopeValue (EnvelopeState s)"
  "bHardReset (Retriggered E s) = bHardReset (EnvelopeState s)"
  by (simp_all add: Retriggered_def UpdateParams_frame)

lemma OnTrigger_SameOutside: "SameOutside s0 s \<Longrightarrow> SameOutside s0 (OnTrigger E a b s)"
  by (cases "GetNextEnvelopeOutput (Retriggered E s) a b []")
    (use GetNextEnvelopeOutput_frame [of "Retriggered E s" a b "[]"] Retriggered_frame [of E s] in
      \<open>simp add: SameOutside_def OnTrigger_unfold\<close>)

lemma CalculateEnvelope_SameOutside: "SameOutside s (CalculateEnvelope E s)"
proof -
  let ?s3 = "UpdateParams E (s\<lparr>OnAttackTrigger := AdvanceBlock (OnAttackTrigger s),
      OnDone := AdvanceBlock (OnDone s)\<rparr>)"
  have base: "SameOutside s ?s3"
    by (simp add: SameOutside_def UpdateParams_def)
  have "SameOutside s (ExecuteBlock PreTrigger (OnTrigger E) (NumFramesPerBlock ?s3) (TriggerAttackIn ?s3) ?s3)"
    by (rule ExecuteBlock_invariant [where P = "SameOutside s"])
      (simp_all add: PreTrigger_SameOutside OnTrigger_SameOutside base)
  then show ?thesis by (simp add: CalculateEnvelope_def Let_def)
qed

lemma PreTrigger_OnDone:
  "set (OnDone s) \<subseteq> {0} \<Longrightarrow> set (OnDone (PreTrigger a b s)) \<subseteq> {0}"
  by (cases "GetNextEnvelopeOutput (EnvelopeState s) a b []")
    (use GetNextEnvelopeOutput_finished [of "EnvelopeState s" a b "[]"] in
      \<open>auto simp add: PreTrigger_unfold\<close>)

lemma OnTrigger_OnDone:
  "set (OnDone s) \<subseteq> {0} \<Longrightarrow> set (OnDone (OnTrigger E a b s)) \<subseteq> {0}"
  by (cases "GetNextEnvelopeOutput (Retriggered E s) a b []")
    (use GetNextEnvelopeOutput_finished [of "Retriggered E s" a b "[]"] in
      \<open>auto simp add: OnTrigger_unfold\<close>)

lemma CalculateEnvelope_OnDone: "set (OnDone (CalculateEnvelope E s)) \<subseteq> {0}"
proof -
  let ?s3 = "UpdateParams E (s\<lparr>OnAttackTrigger := AdvanceBlock (OnAttackTrigger s),
      OnDone := AdvanceBlock (OnDone s)\<rparr>)"
  have base: "set (OnDone ?s3) \<subseteq> {0}"
    by (simp add: UpdateParams_def AdvanceBlock_def)
  have "set (OnDone (ExecuteBlock PreTrigger (OnTrigger E) (NumFramesPerBlock ?s3) (TriggerAttackIn ?s3) ?s3)) \<subseteq> {0}"
    by (rule ExecuteBlock_invariant [where P = "\<lambda>s. set (OnDone s) \<subseteq> {0}"])
      (simp_all add: PreTrigger_OnDone OnTrigger_OnDone base)
  then show ?thesis by (simp add: CalculateEnvelope_def Let_def)
qed

lemma HandleLowPassFilter_frame:
  "EnvelopeState (HandleLowPassFilter E s) = EnvelopeState s"
  "OnAttackTrigger (HandleLowPassFilter E s) = OnAttackTrigger s"
  "OnDone (HandleLowPassFilter E s) = OnDone s"
  "OutEnvelope (HandleLowPassFilter E s) = OutEnvelope s"
  "AudioInput (HandleLowPassFilter E s) = AudioInput s"
  by (simp_all add: HandleLowPassFilter_def Let_def)

lemma Execute_LowPass:
  assumes "Mode s = LowPass"
  shows "Execute E s = (HandleLowPassFilter E s)
     \<lparr>VariableFilter := fst (ProcessAudio E (VariableFilter (HandleLowPassFilter E s)) (AudioInput s)),
      AudioOutput := snd (ProcessAudio E (VariableFilter (HandleLowPassFilter E s)) (AudioInput s))\<rparr>"
  using assms by (simp add: Execute_def Let_def HandleLowPassFilter_frame case_prod_beta)

lemma Execute_VCA:
  assumes "Mode s = VCA"
  shows "Execute E s = (CalculateEnvelope E s)
     \<lparr>AudioOutput := ScaleBuffer (AudioInput s) (OutEnvelope (CalculateEnvelope E s)) (AudioOutput s)\<rparr>"
proof -
  have "AudioInput (CalculateEnvelope E s) = AudioInput s"
    "AudioOutput (CalculateEnvelope E s) = AudioOutput s"
    using CalculateEnvelope_SameOutside [of s E] by (simp_all add: SameOutside_def)
  then show ?thesis using assms by (simp add: Execute_def Let_def)
qed

lemma Execute_Both:
  assumes "Mode s = Both"
  shows "Execute E s = (HandleLowPassFilter E (CalculateEnvelope E s))
     \<lparr>VariableFilter := fst (ProcessAudio E (VariableFilter (HandleLowPassFilter E (CalculateEnvelope E s)))
        (ScaleBuffer (AudioInput s)
           (OutEnvelope (CalculateEnvelope E s)
              * GetMappedRangeValueClamped (0, 20000) (0, 1) (CutOffFrequency s))
           (replicate (length (AudioInput s)) 0))),
      AudioOutput := snd (ProcessAudio E (VariableFilter (HandleLowPassFilter E (CalculateEnvelope E s)))
        (ScaleBuffer (AudioInput s)
           (OutEnvelope (CalculateEnvelope E s)
              * GetMappedRangeValueClamped (0, 20000) (0, 1) (CutOffFrequency s))
           (replicate (length (AudioInput s)) 0)))\<rparr>"
proof -
  let ?c = "CalculateEnvelope E s"
  have raw: "Execute E s =
     (case ProcessAudio E (VariableFilter (HandleLowPassFilter E ?c))
        (ScaleBuffer (AudioInput ?c)
           (OutEnvelope ?c * GetMappedRangeValueClamped (0, 20000) (0, 1) (CutOffFrequency s))
           (replicate (length (AudioInput ?c)) 0)) of
        (F, Out) \<Rightarrow> (HandleLowPassFilter E ?c)\<lparr>VariableFilter := F, AudioOutput := Out\<rparr>)"
    using assms by (simp add: Execute_def CalculateEnvelope_def Let_def)
  have "AudioInput ?c = AudioInput s"
    using CalculateEnvelope_SameOutside [of s E] by (simp add: SameOutside_def)
  then show ?thesis by (simp add: raw case_prod_beta)
qed

lemma ScaleBuffer_prefix:
  "n \<le> length In \<Longrightarrow> length Out = length In \<Longrightarrow>
   fold (\<lambda>i buf. buf[i := In ! i * Gain]) [0..<n] Out
     = map (\<lambda>x. x * Gain) (take n In) @ drop n Out"
proof (induction n)
  case 0
  then show ?case by simp
next
  case (Suc n)
  then have n: "n < length In" "n < length Out" by simp_all
  have "fold (\<lambda>i buf. buf[i := In ! i * Gain]) [0..<Suc n] Out
      = (map (\<lambda>x. x * Gain) (take n In) @ drop n Out)[n := In ! n * Gain]"
    using Suc by simp
  also have "\<dots> = map (\<lambda>x. x * Gain) (take n In) @ (drop n Out)[0 := In ! n * Gain]"
    using n by (simp add: list_update_append)
  also have "(drop n Out)[0 := In ! n * Gain] = (In ! n * Gain) # drop (Suc n) Out"
    using n by (simp add: Cons_nth_drop_Suc [symmetric])
  also have "map (\<lambda>x. x * Gain) (take n In) @ (In ! n * Gain) # drop (Suc n) Out
      = map (\<lambda>x. x * Gain) (take (Suc n) In) @ drop (Suc n) Out"
    using n by (simp add: take_Suc_conv_app_nth)
  finally show ?case .
qed

lemma ScaleBuffer_map:
  "length Out = length In \<Longrightarrow> ScaleBuffer In Gain Out = map (\<lambda>x. x * Gain) In"
  using ScaleBuffer_prefix [of "length In" In Out Gain] by (simp add: ScaleBuffer_def)

lemma GetMappedRangeValueClamped_cutoff:
  "GetMappedRangeValueClamped (0, 20000) (0, 1) c =
     (if c < 0 then 0 else if c < 20000 then c / 20000 else 1)"
  by (simp add: GetMappedRangeValueClamped_def Clamp_def)

lemma CalculateEnvelope_bNeedsUpdate:
  "bNeedsUpdate E (CalculateEnvelope E s) = bNeedsUpdate E s"
  using CalculateEnvelope_SameOutside [of s E] by (simp add: bNeedsUpdate_iff SameOutside_def)

lemma HandleLowPassFilter_after_envelope:
  "VariableFilter (HandleLowPassFilter E (CalculateEnvelope E s)) = VariableFilter (HandleLowPassFilter E s)"
  "PreviousFrequency (HandleLowPassFilter E (CalculateEnvelope E s)) = PreviousFrequency (HandleLowPassFilter E s)"
  "OutEnvelope (HandleLowPassFilter E (CalculateEnvelope E s)) = OutEnvelope (CalculateEnvelope E s)"
  using CalculateEnvelope_SameOutside [of s E] CalculateEnvelope_bNeedsUpdate [of E s]
  by (cases "bNeedsUpdate E s";
      simp add: HandleLowPassFilter_commit HandleLowPassFilter_skip SameOutside_def)+

lemma HandleLowPassFilter_frequency:
  assumes "0 \<le> SMALL_NUMBER E"
  shows "\<bar>PreviousFrequency (HandleLowPassFilter E s) - Clamp (CutOffFrequency s) 0 (0.5 * SampleRate s)\<bar>
     \<le> SMALL_NUMBER E"
proof (cases "bNeedsUpdate E s")
  case True
  then show ?thesis using assms by (simp add: HandleLowPassFilter_commit)
next
  case False
  then show ?thesis by (simp add: HandleLowPassFilter_skip bNeedsUpdate_iff)
qed

lemma CalculateEnvelope_no_trigger:
  "TriggerAttackIn s = [] \<Longrightarrow>
   CalculateEnvelope E s =
     PreTrigger 0 (NumFramesPerBlock s) (UpdateParams E (s\<lparr>OnAttackTrigger := [], OnDone := []\<rparr>))"
  by (simp add: CalculateEnvelope_def ExecuteBlock_def Let_def AdvanceBlock_def UpdateParams_def)

lemma CalculateEnvelope_trigger_at_start:
  "TriggerAttackIn s = [0] \<Longrightarrow>
   CalculateEnvelope E s =
     OnTrigger E 0 (NumFramesPerBlock s) (UpdateParams E (s\<lparr>OnAttackTrigger := [], OnDone := []\<rparr>))"
  by (simp add: CalculateEnvelope_def ExecuteBlock_def Let_def AdvanceBlock_def UpdateParams_def)

lemma OnTrigger_OutEnvelope_later:
  "0 < StartFrame \<Longrightarrow> OutEnvelope (OnTrigger E StartFrame EndFrame s) = 0"
  by (simp add: OnTrigger_unfold GetNextEnvelopeOutput_skipped)

lemma OnTrigger_OutEnvelope_start:
  assumes "0 < KINDA_SMALL_NUMBER E"
    and "float32 (SampleRate s * float32 (AttackTime s)) < 2 ^ 31"
  shows "OutEnvelope (OnTrigger E 0 EndFrame s) =
     (if 1 < max 1 \<lfloor>float32 (SampleRate s * float32 (AttackTime s))\<rfloor>
      then (if bHardReset (EnvelopeState s) then 0 else CurrentEnvelopeValue (EnvelopeState s))
      else 1)"
proof -
  let ?e = "Retriggered E s"
  have a: "AttackSampleCount ?e = max 1 \<lfloor>float32 (SampleRate s * float32 (AttackTime s))\<rfloor>"
    by (simp add: Retriggered_fields UpdateParams_attack [OF assms(2)])
  have att: "1 \<le> AttackSampleCount ?e"
    unfolding a by simp
  have acf: "0 < AttackCurveFactor ?e"
    using assms(1) by (simp add: Retriggered_fields UpdateParams_attack [OF assms(2)] less_max_iff_disj)
  have "GetNextEnvelopeOutput ?e 0 EndFrame [] =
      (?e\<lparr>CurrentSampleIndex := 1\<rparr>, [], if 1 < AttackSampleCount ?e then StartingEnvelopeValue ?e else 1)"
    using Retriggered_fields(1) att acf by (rule GetNextEnvelopeOutput_first_attack)
  then show ?thesis
    by (simp add: OnTrigger_unfold a Retriggered_fields(2))
qed

lemma CalculateEnvelope_last:
  "\<exists>s'. SameOutside s s' \<and>
     CalculateEnvelope E s =
       (if TriggerAttackIn s = [] then PreTrigger 0 (NumFramesPerBlock s) s'
        else OnTrigger E (last (TriggerAttackIn s)) (NumFramesPerBlock s) s')"
proof -
  let ?s3 = "UpdateParams E (s\<lparr>OnAttackTrigger := AdvanceBlock (OnAttackTrigger s),
      OnDone := AdvanceBlock (OnDone s)\<rparr>)"
  have base: "SameOutside s ?s3"
    by (simp add: SameOutside_def UpdateParams_def)
  have c: "CalculateEnvelope E s =
      ExecuteBlock PreTrigger (OnTrigger E) (NumFramesPerBlock s) (TriggerAttackIn s) ?s3"
    by (simp add: CalculateEnvelope_def Let_def UpdateParams_def)
  show ?thesis
    unfolding c
    by (rule ExecuteBlock_last [where P = "SameOutside s"])
      (simp_all add: PreTrigger_SameOutside OnTrigger_SameOutside base)
qed

text \<open>
  Claim C7. In \<^verbatim>\<open>LowPass\<close> mode a block leaves the envelope state (so also
  \<open>CurrentSampleIndex\<close>), both output trigger streams and the envelope output as they
  were: the streams are neither advanced nor given an event. The audio output is what
  the filter, after \<^verbatim>\<open>HandleLowPassFilter\<close>, writes for the audio input.
\<close>

theorem C7_lowpass_mode:
  assumes "Mode s = LowPass"
  shows "EnvelopeState (Execute E s) = EnvelopeState s
       \<and> OnAttackTrigger (Execute E s) = OnAttackTrigger s
       \<and> OnDone (Execute E s) = OnDone s
       \<and> OutEnvelope (Execute E s) = OutEnvelope s
       \<and> AudioOutput (Execute E s)
           = snd (ProcessAudio E (VariableFilter (HandleLowPassFilter E s)) (AudioInput s))
       \<and> VariableFilter (Execute E s)
           = fst (ProcessAudio E (VariableFilter (HandleLowPassFilter E s)) (AudioInput s))"
  using assms by (simp add: Execute_LowPass HandleLowPassFilter_frame)

text \<open>
  A running envelope and a done event from an earlier block are both still there after
  a \<^verbatim>\<open>LowPass\<close> block.
\<close>

theorem C7_lowpass_mode_witness:
  "EnvelopeState (Execute TestEngine Filtering) = TestEnvelope 12481 480 48000
   \<and> OnAttackTrigger (Execute TestEngine Filtering) = []
   \<and> OnDone (Execute TestEngine Filtering) = [0]
   \<and> OutEnvelope (Execute TestEngine Filtering) = 3 / 4
   \<and> AudioOutput (Execute TestEngine Filtering) = [1, 1, 1, 1]
   \<and> VariableFilter (Execute TestEngine Filtering) = (1000, 0, 0)"
proof -
  have m: "Mode Filtering = LowPass"
    by (simp add: Filtering_def TestOperator_def FLowPassGateOperator_init_def)
  have f: "EnvelopeState Filtering = TestEnvelope 12481 480 48000" "OnAttackTrigger Filtering = []"
    "OnDone Filtering = [0]" "OutEnvelope Filtering = 3 / 4" "AudioInput Filtering = [1, 1, 1, 1]"
    "VariableFilter Filtering = (0, 0, 0)" "CutOffFrequency Filtering = 1000"
    "SampleRate Filtering = 48000" "PreviousResonance Filtering = - 1"
    by (simp_all add: Filtering_def TestOperator_def FLowPassGateOperator_init_def)
  have need: "bNeedsUpdate TestEngine Filtering"
    by (simp add: bNeedsUpdate_iff f TestEngine_def)
  have cl: "Clamp 1000 0 24000 = 1000" by (simp add: Clamp_def)
  have ops: "Update TestEngine (SetBandStopControl TestEngine 0
       (SetFrequency TestEngine 1000 (SetQ TestEngine 0 (0, 0, 0)))) = (1000, 0, 0)"
    "\<And>F xs. ProcessAudio TestEngine F xs = (F, xs)"
    by (simp_all add: TestEngine_def)
  have flt: "VariableFilter (HandleLowPassFilter TestEngine Filtering) = (1000, 0, 0)"
    using need by (simp add: HandleLowPassFilter_commit f cl ops)
  show ?thesis
    using C7_lowpass_mode [OF m, of TestEngine] by (simp add: f flt ops)
qed

text \<open>
  Claim C8. In \<^verbatim>\<open>VCA\<close> mode (the two audio buffers having the same length, as the
  constructor makes them) every output sample is the input sample times the envelope
  output of the block, and with a constant input \<open>1\<close> and an envelope value \<open>1/2\<close> the
  output is the constant \<open>1/2\<close>. The envelope output is the one value that the handler
  of the last sub-range wrote. With no trigger in the block that is the value of the
  engine's call on the whole block, after the parameter refresh. With triggers the
  last sub-range is the one of the last trigger: when that trigger is at a frame after
  the first the value is \<open>0\<close>, whatever the earlier sub-ranges wrote; when it is at
  frame \<open>0\<close> (the attack time being in the range of \<^verbatim>\<open>float\<close> and the attack sample
  count an \<^verbatim>\<open>int32\<close>) the value is the first attack sample of the retriggered envelope.
\<close>

theorem C8_vca_mode:
  assumes "Mode s = VCA" "length (AudioOutput s) = length (AudioInput s)"
  shows "length (AudioOutput (Execute E s)) = length (AudioInput s)
       \<and> (\<forall>i < length (AudioInput s).
             AudioOutput (Execute E s) ! i = AudioInput s ! i * OutEnvelope (Execute E s))
       \<and> AudioOutput (Execute E s) = map (\<lambda>x. x * OutEnvelope (Execute E s)) (AudioInput s)
       \<and> (AudioInput s = replicate n 1 \<and> OutEnvelope (Execute E s) = 1 / 2
             \<longrightarrow> AudioOutput (Execute E s) = replicate n (1 / 2))
       \<and> OutEnvelope (Execute E s) = OutEnvelope (CalculateEnvelope E s)
       \<and> (TriggerAttackIn s = [] \<longrightarrow>
             OutEnvelope (Execute E s) =
               snd (snd (GetNextEnvelopeOutput (EnvelopeState (UpdateParams E s)) 0
                 (NumFramesPerBlock s) [])))
       \<and> (TriggerAttackIn s \<noteq> [] \<and> 0 < last (TriggerAttackIn s) \<longrightarrow>
             OutEnvelope (Execute E s) = 0)
       \<and> (TriggerAttackIn s \<noteq> [] \<and> last (TriggerAttackIn s) = 0
            \<and> 0 < KINDA_SMALL_NUMBER E \<and> \<bar>AttackTime s\<bar> \<le> FLT_MAX
            \<and> float32 (SampleRate s * float32 (AttackTime s)) < 2 ^ 31 \<longrightarrow>
             OutEnvelope (Execute E s) =
               (if 1 < max 1 \<lfloor>float32 (SampleRate s * float32 (AttackTime s))\<rfloor>
                then (if bHardReset (EnvelopeState s) then 0
                      else CurrentEnvelopeValue (EnvelopeState s))
                else 1))"
proof -
  let ?c = "CalculateEnvelope E s"
  have env: "OutEnvelope (Execute E s) = OutEnvelope ?c"
    using assms(1) by (simp add: Execute_VCA)
  have out: "AudioOutput (Execute E s) = map (\<lambda>x. x * OutEnvelope (Execute E s)) (AudioInput s)"
    using assms by (simp add: Execute_VCA ScaleBuffer_map)
  have len: "length (AudioOutput (Execute E s)) = length (AudioInput s)"
    by (simp add: out)
  have nth: "\<forall>i < length (AudioInput s).
      AudioOutput (Execute E s) ! i = AudioInput s ! i * OutEnvelope (Execute E s)"
    by (simp add: out)
  have const: "AudioOutput (Execute E s) = replicate n (1 / 2)"
    if "AudioInput s = replicate n 1" "OutEnvelope (Execute E s) = 1 / 2"
    using that by (simp add: out)
  have none: "OutEnvelope (Execute E s) =
      snd (snd (GetNextEnvelopeOutput (EnvelopeState (UpdateParams E s)) 0 (NumFramesPerBlock s) []))"
    if "TriggerAttackIn s = []"
  proof -
    have "EnvelopeState (UpdateParams E (s\<lparr>OnAttackTrigger := [], OnDone := []\<rparr>))
        = EnvelopeState (UpdateParams E s)"
      by (simp add: UpdateParams_def)
    then show ?thesis
      using that by (simp add: env CalculateEnvelope_no_trigger PreTrigger_unfold case_prod_beta)
  qed
  obtain s' where same: "SameOutside s s'"
    and c: "?c = (if TriggerAttackIn s = [] then PreTrigger 0 (NumFramesPerBlock s) s'
      else OnTrigger E (last (TriggerAttackIn s)) (NumFramesPerBlock s) s')"
    using CalculateEnvelope_last [of s E] by blast
  have later: "OutEnvelope (Execute E s) = 0"
    if "TriggerAttackIn s \<noteq> []" "0 < last (TriggerAttackIn s)"
    using that by (simp add: env c OnTrigger_OutEnvelope_later)
  have start: "OutEnvelope (Execute E s) =
      (if 1 < max 1 \<lfloor>float32 (SampleRate s * float32 (AttackTime s))\<rfloor>
       then (if bHardReset (EnvelopeState s) then 0 else CurrentEnvelopeValue (EnvelopeState s))
       else 1)"
    if "TriggerAttackIn s \<noteq> []" "last (TriggerAttackIn s) = 0" "0 < KINDA_SMALL_NUMBER E"
      "float32 (SampleRate s * float32 (AttackTime s)) < 2 ^ 31"
  proof -
    have eq: "SampleRate s' = SampleRate s" "AttackTime s' = AttackTime s"
      "bHardReset (EnvelopeState s') = bHardReset (EnvelopeState s)"
      "CurrentEnvelopeValue (EnvelopeState s') = CurrentEnvelopeValue (EnvelopeState s)"
      using same by (simp_all add: SameOutside_def)
    have range: "float32 (SampleRate s' * float32 (AttackTime s')) < 2 ^ 31"
      using that(4) by (simp add: eq)
    show ?thesis
      using that(1,2) by (simp add: env c OnTrigger_OutEnvelope_start [OF that(3) range] eq)
  qed
  show ?thesis
    using len nth out const env none later start by blast
qed

text \<open>
  Half-way up a linear attack, on a block of four samples of value \<open>1\<close>: with no
  trigger the block's value is \<open>1/2\<close>; with a trigger at frame \<open>2\<close> the first
  sub-range's \<open>1/2\<close> is replaced by the \<open>0\<close> of the trigger's sub-range; with a trigger
  at frame \<open>0\<close> and an instant attack the value is \<open>1\<close>.
\<close>

theorem C8_vca_mode_witness:
  "OutEnvelope (Execute TestEngine HalfOpen) = 1 / 2
   \<and> AudioInput HalfOpen = [1, 1, 1, 1]
   \<and> AudioOutput (Execute TestEngine HalfOpen) = [1 / 2, 1 / 2, 1 / 2, 1 / 2]
   \<and> OutEnvelope (Execute TestEngine (HalfOpen\<lparr>TriggerAttackIn := [2]\<rparr>)) = 0
   \<and> AudioOutput (Execute TestEngine (HalfOpen\<lparr>TriggerAttackIn := [2]\<rparr>)) = [0, 0, 0, 0]
   \<and> OutEnvelope (Execute TestEngine (HalfOpen\<lparr>TriggerAttackIn := [0], AttackTime := 0\<rparr>)) = 1
   \<and> AudioOutput (Execute TestEngine (HalfOpen\<lparr>TriggerAttackIn := [0], AttackTime := 0\<rparr>))
       = [1, 1, 1, 1]"
proof -
  let ?t = "HalfOpen\<lparr>TriggerAttackIn := [2]\<rparr>"
  let ?i = "HalfOpen\<lparr>TriggerAttackIn := [0], AttackTime := 0\<rparr>"
  have h: "Mode HalfOpen = VCA" "length (AudioOutput HalfOpen) = length (AudioInput HalfOpen)"
    "AudioInput HalfOpen = replicate 4 1" "AudioInput HalfOpen = [1, 1, 1, 1]"
    "TriggerAttackIn HalfOpen = []" "NumFramesPerBlock HalfOpen = 4"
    "SampleRate HalfOpen = 48000" "AttackTime HalfOpen = 1 / 100" "DecayTime HalfOpen = 1"
    "InAttackCurveFactor HalfOpen = 1" "EnvelopeState HalfOpen = TestEnvelope 240 480 48000"
    "InDecayCurveFactor HalfOpen = 1"
    by (simp_all add: HalfOpen_def TestOperator_def FLowPassGateOperator_init_def numeral_eq_Suc)
  have k: "0 < KINDA_SMALL_NUMBER TestEngine" "KINDA_SMALL_NUMBER TestEngine = 1 / 10000"
    by (simp_all add: TestEngine_def)
  have mt: "Mode ?t = VCA" "length (AudioOutput ?t) = length (AudioInput ?t)"
    and mi: "Mode ?i = VCA" "length (AudioOutput ?i) = length (AudioInput ?i)"
    using h(1,2) by simp_all
  have u: "EnvelopeState (UpdateParams TestEngine HalfOpen) = TestEnvelope 240 480 48000"
    unfolding UpdateParams_48k [of HalfOpen, OF h(7,8,9)]
    by (simp add: h(10,11,12) k(2) TestEnvelope_def)
  have g: "GetNextEnvelopeOutput (TestEnvelope 240 480 48000) 0 4 []
      = (TestEnvelope 241 480 48000, [], 1 / 2)"
    by (simp add: GetNextEnvelopeOutput_def TestEnvelope_def FEnvelopeState_init_def
        INDEX_NONE_def Pow_def wrap_int32_def)
  have q: "float32 (SampleRate ?i * float32 (AttackTime ?i)) = 0"
    by (simp add: h(7) float32_values)
  have r: "float32 (SampleRate ?i * float32 (AttackTime ?i)) < 2 ^ 31"
    unfolding q by simp
  note a = C8_vca_mode [OF h(1,2), of TestEngine 4, unfolded h(5,6) u g]
  note b = C8_vca_mode [OF mt, of TestEngine 4]
  note c = C8_vca_mode [OF mi, of TestEngine 4, unfolded q]
  have ea: "OutEnvelope (Execute TestEngine HalfOpen) = 1 / 2"
    using a by simp
  have oa: "AudioOutput (Execute TestEngine HalfOpen) = replicate 4 (1 / 2)"
    using a ea h(3) by blast
  have eb: "OutEnvelope (Execute TestEngine ?t) = 0"
    using b by simp
  have ob: "AudioOutput (Execute TestEngine ?t) = map (\<lambda>x. x * 0) (AudioInput ?t)"
    unfolding eb [symmetric] using b by blast
  have m: "\<bar>AttackTime ?i\<bar> \<le> FLT_MAX"
    by (simp add: FLT_MAX_def)
  have ec: "OutEnvelope (Execute TestEngine ?i) = 1"
    using c k(1) r m by simp
  have oc: "AudioOutput (Execute TestEngine ?i) = map (\<lambda>x. x * 1) (AudioInput ?i)"
    unfolding ec [symmetric] using c by blast
  show ?thesis
    using ea oa eb ob ec oc h(4) by (simp add: numeral_eq_Suc)
qed

text \<open>
  Claim C5. In \<^verbatim>\<open>Both\<close> mode, with a positive sample rate and a tolerance that is not
  negative: the cutoff input is mapped from \<open>0..20000\<close> into \<open>[0,1]\<close>, linearly inside
  the range and clamped outside; the gain is the envelope output of the block times the
  mapped value; every input sample is scaled by the gain into the scratch buffer; and
  the audio output is what the filter writes for the scratch buffer, after
  \<^verbatim>\<open>HandleLowPassFilter\<close> has brought the filter to the unmapped cutoff clamped to
  \<open>[0, sample_rate/2]\<close>. That is: when the call commits, the filter's frequency is set
  to the clamped cutoff; when it does not, the filter keeps its committed parameters;
  and in both cases the frequency the operator holds as committed is the clamped cutoff
  up to the tolerance of its near-equality test.
\<close>

theorem C5_both_mode:
  assumes "Mode s = Both" "0 < SampleRate s" "0 \<le> SMALL_NUMBER E"
  shows "GetMappedRangeValueClamped (0, 20000) (0, 1) (CutOffFrequency s) =
           (if CutOffFrequency s < 0 then 0
            else if CutOffFrequency s < 20000 then CutOffFrequency s / 20000 else 1)
       \<and> 0 \<le> GetMappedRangeValueClamped (0, 20000) (0, 1) (CutOffFrequency s)
       \<and> GetMappedRangeValueClamped (0, 20000) (0, 1) (CutOffFrequency s) \<le> 1
       \<and> OutEnvelope (Execute E s) = OutEnvelope (CalculateEnvelope E s)
       \<and> AudioOutput (Execute E s) =
           snd (ProcessAudio E (VariableFilter (HandleLowPassFilter E s))
             (map (\<lambda>x. x * (OutEnvelope (CalculateEnvelope E s)
                           * GetMappedRangeValueClamped (0, 20000) (0, 1) (CutOffFrequency s)))
                  (AudioInput s)))
       \<and> (bNeedsUpdate E s \<longrightarrow>
            VariableFilter (HandleLowPassFilter E s) =
              Update E (SetBandStopControl E 0
                (SetFrequency E (Clamp (CutOffFrequency s) 0 (0.5 * SampleRate s))
                  (SetQ E 0 (VariableFilter s)))))
       \<and> (\<not> bNeedsUpdate E s \<longrightarrow> VariableFilter (HandleLowPassFilter E s) = VariableFilter s)
       \<and> \<bar>PreviousFrequency (Execute E s) - Clamp (CutOffFrequency s) 0 (0.5 * SampleRate s)\<bar>
            \<le> SMALL_NUMBER E
       \<and> 0 \<le> Clamp (CutOffFrequency s) 0 (0.5 * SampleRate s)
       \<and> Clamp (CutOffFrequency s) 0 (0.5 * SampleRate s) \<le> SampleRate s / 2"
proof -
  have mapped: "0 \<le> GetMappedRangeValueClamped (0, 20000) (0, 1) (CutOffFrequency s)"
    "GetMappedRangeValueClamped (0, 20000) (0, 1) (CutOffFrequency s) \<le> 1"
    by (simp_all add: GetMappedRangeValueClamped_cutoff)
  have env: "OutEnvelope (Execute E s) = OutEnvelope (CalculateEnvelope E s)"
    using assms(1) by (simp add: Execute_Both HandleLowPassFilter_after_envelope)
  have out: "AudioOutput (Execute E s) =
           snd (ProcessAudio E (VariableFilter (HandleLowPassFilter E s))
             (map (\<lambda>x. x * (OutEnvelope (CalculateEnvelope E s)
                           * GetMappedRangeValueClamped (0, 20000) (0, 1) (CutOffFrequency s)))
                  (AudioInput s)))"
    using assms(1) by (simp add: Execute_Both HandleLowPassFilter_after_envelope ScaleBuffer_map)
  have freq: "\<bar>PreviousFrequency (Execute E s) - Clamp (CutOffFrequency s) 0 (0.5 * SampleRate s)\<bar>
            \<le> SMALL_NUMBER E"
    using assms(1) HandleLowPassFilter_frequency [OF assms(3), of s]
    by (simp add: Execute_Both HandleLowPassFilter_after_envelope)
  have range: "0 \<le> Clamp (CutOffFrequency s) 0 (0.5 * SampleRate s)"
    "Clamp (CutOffFrequency s) 0 (0.5 * SampleRate s) \<le> SampleRate s / 2"
    using assms(2) Clamp_range [of 0 "0.5 * SampleRate s" "CutOffFrequency s"] by simp_all
  show ?thesis
    using mapped env out freq range GetMappedRangeValueClamped_cutoff [of "CutOffFrequency s"]
    by (simp add: HandleLowPassFilter_commit HandleLowPassFilter_skip)
qed

text \<open>
  Half-way up a linear attack with the cutoff at 5000: the gain is \<open>1/2 * 1/4\<close>, and
  the filter is set to 5000 Hz, not to the mapped value.
\<close>

theorem C5_both_mode_witness:
  "GetMappedRangeValueClamped (0, 20000) (0, 1) (CutOffFrequency HalfOpenBoth) = 1 / 4
   \<and> OutEnvelope (Execute TestEngine HalfOpenBoth) = 1 / 2
   \<and> AudioOutput (Execute TestEngine HalfOpenBoth) = [1 / 8, 1 / 8, 1 / 8, 1 / 8]
   \<and> VariableFilter (HandleLowPassFilter TestEngine HalfOpenBoth) = (5000, 0, 0)
   \<and> PreviousFrequency (Execute TestEngine HalfOpenBoth) = 5000"
proof -
  have h: "Mode HalfOpenBoth = Both" "0 < SampleRate HalfOpenBoth" "0 \<le> SMALL_NUMBER TestEngine"
    by (simp_all add: HalfOpenBoth_def HalfOpen_def TestOperator_def TestEngine_def
        FLowPassGateOperator_init_def)
  have f: "CutOffFrequency HalfOpenBoth = 5000" "SampleRate HalfOpenBoth = 48000"
    "AudioInput HalfOpenBoth = [1, 1, 1, 1]" "VariableFilter HalfOpenBoth = (0, 0, 0)"
    "PreviousResonance HalfOpenBoth = - 1" "TriggerAttackIn HalfOpenBoth = []"
    by (simp_all add: HalfOpenBoth_def HalfOpen_def TestOperator_def FLowPassGateOperator_init_def)
  have need: "bNeedsUpdate TestEngine HalfOpenBoth"
    by (simp add: bNeedsUpdate_iff f TestEngine_def)
  have c: "OutEnvelope (CalculateEnvelope TestEngine HalfOpenBoth) = 1 / 2"
    by (simp add: CalculateEnvelope_no_trigger f PreTrigger_unfold UpdateParams_48k
        GetNextEnvelopeOutput_def INDEX_NONE_def Pow_def wrap_int32_def TestEngine_def
        HalfOpenBoth_def HalfOpen_def TestOperator_def TestEnvelope_def
        FLowPassGateOperator_init_def FEnvelopeState_init_def)
  have cl: "Clamp 5000 0 24000 = 5000" by (simp add: Clamp_def)
  have ops: "Update TestEngine (SetBandStopControl TestEngine 0
       (SetFrequency TestEngine 5000 (SetQ TestEngine 0 (0, 0, 0)))) = (5000, 0, 0)"
    "\<And>F xs. ProcessAudio TestEngine F xs = (F, xs)"
    by (simp_all add: TestEngine_def)
  note t = C5_both_mode [OF h]
  have flt: "VariableFilter (HandleLowPassFilter TestEngine HalfOpenBoth) = (5000, 0, 0)"
    using t need by (simp add: f cl ops)
  have prev: "PreviousFrequency (Execute TestEngine HalfOpenBoth) = 5000"
    using h(1) need by (simp add: Execute_Both HandleLowPassFilter_after_envelope
        HandleLowPassFilter_commit f cl)
  show ?thesis
    using t flt prev by (simp add: f c ops)
qed

section \<open>The done trigger\<close>

text \<open>
  Claim C10. Every finished frame the engine reports is the literal \<open>0\<close>; both handlers
  pass the reported frames to the done stream as they are, with no offset added; so
  after a block in \<^verbatim>\<open>VCA\<close> or \<^verbatim>\<open>Both\<close> mode every event of the done stream is at
  frame \<open>0\<close>. A block in \<^verbatim>\<open>LowPass\<close> mode leaves the stream alone. Hence in every
  mode a done stream whose events are all at frame \<open>0\<close> stays so, block after block.
\<close>

theorem C10_done_at_frame_zero:
  "set (fst (snd (GetNextEnvelopeOutput e StartFrame EndFrame []))) \<subseteq> {0}
   \<and> OnDone (PreTrigger StartFrame EndFrame s)
       = OnDone s @ fst (snd (GetNextEnvelopeOutput (EnvelopeState s) StartFrame EndFrame []))
   \<and> OnDone (OnTrigger E StartFrame EndFrame s)
       = OnDone s @ fst (snd (GetNextEnvelopeOutput (Retriggered E s) StartFrame EndFrame []))
   \<and> (Mode s \<noteq> LowPass \<longrightarrow> set (OnDone (Execute E s)) \<subseteq> {0})
   \<and> (Mode s = LowPass \<longrightarrow> OnDone (Execute E s) = OnDone s)
   \<and> (set (OnDone s) \<subseteq> {0} \<longrightarrow> set (OnDone (Execute E s)) \<subseteq> {0})"
proof -
  have engine: "set (fst (snd (GetNextEnvelopeOutput e StartFrame EndFrame []))) \<subseteq> {0}"
    using GetNextEnvelopeOutput_finished [of e StartFrame EndFrame "[]"] by auto
  have pre: "OnDone (PreTrigger StartFrame EndFrame s)
       = OnDone s @ fst (snd (GetNextEnvelopeOutput (EnvelopeState s) StartFrame EndFrame []))"
    by (simp add: PreTrigger_unfold case_prod_beta)
  have on: "OnDone (OnTrigger E StartFrame EndFrame s)
       = OnDone s @ fst (snd (GetNextEnvelopeOutput (Retriggered E s) StartFrame EndFrame []))"
    by (simp add: OnTrigger_unfold case_prod_beta)
  have low: "OnDone (Execute E s) = OnDone s" if "Mode s = LowPass"
    using that by (simp add: Execute_LowPass HandleLowPassFilter_frame)
  have other: "set (OnDone (Execute E s)) \<subseteq> {0}" if "Mode s \<noteq> LowPass"
  proof (cases "Mode s")
    case LowPass
    with that show ?thesis by simp
  next
    case VCA
    then show ?thesis using CalculateEnvelope_OnDone [of E s] by (simp add: Execute_VCA)
  next
    case Both
    then show ?thesis
      using CalculateEnvelope_OnDone [of E s]
      by (simp add: Execute_Both HandleLowPassFilter_frame)
  qed
  have inv: "set (OnDone (Execute E s)) \<subseteq> {0}" if "set (OnDone s) \<subseteq> {0}"
    using that low other by (cases "Mode s = LowPass") simp_all
  show ?thesis using engine pre on low other inv by blast
qed

text \<open>
  An envelope past its last decay sample, with a trigger at frame \<open>2\<close> of the block:
  the done event is at frame \<open>0\<close> and the attack event at frame \<open>2\<close>. And a
  \<^verbatim>\<open>LowPass\<close> block with a done event left from before.
\<close>

theorem C10_done_at_frame_zero_witness:
  "set (OnDone (Execute TestEngine Finishing)) \<subseteq> {0}
   \<and> OnDone (Execute TestEngine Finishing) = [0]
   \<and> OnAttackTrigger (Execute TestEngine Finishing) = [2]
   \<and> OnDone (Execute TestEngine Filtering) = [0]
   \<and> set (OnDone (Execute TestEngine Filtering)) \<subseteq> {0}"
proof -
  have m: "Mode Finishing \<noteq> LowPass" "Mode Finishing = VCA" "Mode Filtering = LowPass"
    "OnDone Filtering = [0]"
    by (simp_all add: Finishing_def Filtering_def TestOperator_def FLowPassGateOperator_init_def)
  have run: "OnDone (CalculateEnvelope TestEngine Finishing) = [0]
      \<and> OnAttackTrigger (CalculateEnvelope TestEngine Finishing) = [2]"
    by (simp add: CalculateEnvelope_def ExecuteBlock_def Let_def AdvanceBlock_def
        PreTrigger_unfold OnTrigger_unfold Retriggered_def UpdateParams_48k
        GetNextEnvelopeOutput_def INDEX_NONE_def wrap_int32_def
        TestEngine_def Finishing_def TestOperator_def TestEnvelope_def
        FLowPassGateOperator_init_def FEnvelopeState_init_def)
  have ex: "OnDone (Execute TestEngine Finishing) = [0]"
    "OnAttackTrigger (Execute TestEngine Finishing) = [2]"
    using run by (simp_all add: Execute_VCA [OF m(2)])
  note a = C10_done_at_frame_zero [of "EnvelopeState Finishing" 0 4 Finishing TestEngine]
  note b = C10_done_at_frame_zero [of "EnvelopeState Filtering" 0 4 Filtering TestEngine]
  have "set (OnDone (Execute TestEngine Finishing)) \<subseteq> {0}"
    using a m(1) by blast
  moreover have "OnDone (Execute TestEngine Filtering) = [0]"
    using b m(3,4) by simp
  moreover have "set (OnDone (Execute TestEngine Filtering)) \<subseteq> {0}"
    using b m(4) by simp
  ultimately show ?thesis using ex by simp
qed

section \<open>The retrigger baseline\<close>

text \<open>
  Claim C1 says that a retrigger without hard reset starts the attack from the last
  computed envelope value \<open>v\<close>, so that the first attack output is at least \<open>v\<close>. The
  handler reads the baseline from the field \<open>CurrentEnvelopeValue\<close>, but no block ever
  writes that field (the engine writes its value to \<^verbatim>\<open>*OutEnvelope\<close> only): it keeps
  its initial \<open>0\<close>. So a quarter into a linear decay the block's value is \<open>3/4\<close>, and
  after a trigger at frame \<open>0\<close> of the next block, with no hard reset, the starting
  value and the first attack output are \<open>0\<close>.
\<close>

theorem C1_retrigger_baseline:
  "CurrentEnvelopeValue (EnvelopeState (Execute E s)) = CurrentEnvelopeValue (EnvelopeState s)
   \<and> OutEnvelope (Execute TestEngine Decaying) = 3 / 4
   \<and> CurrentSampleIndex (EnvelopeState (Execute TestEngine Decaying)) = 12481
   \<and> bHardReset (EnvelopeState (Execute TestEngine Decaying)) = False
   \<and> StartingEnvelopeValue (EnvelopeState
        (Execute TestEngine ((Execute TestEngine Decaying)\<lparr>TriggerAttackIn := [0]\<rparr>))) = 0
   \<and> OutEnvelope (Execute TestEngine ((Execute TestEngine Decaying)\<lparr>TriggerAttackIn := [0]\<rparr>)) = 0"
proof -
  have never: "CurrentEnvelopeValue (EnvelopeState (Execute E s)) = CurrentEnvelopeValue (EnvelopeState s)"
  proof (cases "Mode s")
    case LowPass
    then show ?thesis by (simp add: Execute_LowPass HandleLowPassFilter_frame)
  next
    case VCA
    then show ?thesis
      using CalculateEnvelope_SameOutside [of s E] by (simp add: Execute_VCA SameOutside_def)
  next
    case Both
    then show ?thesis
      using CalculateEnvelope_SameOutside [of s E]
      by (simp add: Execute_Both HandleLowPassFilter_frame SameOutside_def)
  qed
  have d: "Mode Decaying = VCA" "TriggerAttackIn Decaying = []"
    by (simp_all add: Decaying_def TestOperator_def FLowPassGateOperator_init_def)
  have first: "CalculateEnvelope TestEngine Decaying =
      Decaying\<lparr>EnvelopeState := TestEnvelope 12481 480 48000, OutEnvelope := 3 / 4\<rparr>"
    by (simp add: CalculateEnvelope_no_trigger d PreTrigger_unfold UpdateParams_48k
        GetNextEnvelopeOutput_def INDEX_NONE_def Pow_def wrap_int32_def TestEngine_def
        Decaying_def TestOperator_def TestEnvelope_def
        FLowPassGateOperator_init_def FEnvelopeState_init_def)
  let ?b1 = "Execute TestEngine Decaying"
  have b1: "?b1 = Decaying\<lparr>EnvelopeState := TestEnvelope 12481 480 48000, OutEnvelope := 3 / 4,
      AudioOutput := ScaleBuffer (AudioInput Decaying) (3 / 4) (AudioOutput Decaying)\<rparr>"
    by (simp add: Execute_VCA d first)
  let ?s2 = "?b1\<lparr>TriggerAttackIn := [0]\<rparr>"
  have s2: "Mode ?s2 = VCA" "TriggerAttackIn ?s2 = [0]"
    by (simp_all add: b1 d)
  have s2eq: "?s2 = Decaying\<lparr>EnvelopeState := TestEnvelope 12481 480 48000, OutEnvelope := 3 / 4,
      AudioOutput := ScaleBuffer (AudioInput Decaying) (3 / 4) (AudioOutput Decaying),
      TriggerAttackIn := [0]\<rparr>"
    by (simp add: b1)
  have second: "StartingEnvelopeValue (EnvelopeState (CalculateEnvelope TestEngine ?s2)) = 0
      \<and> OutEnvelope (CalculateEnvelope TestEngine ?s2) = 0"
    unfolding s2eq
    by (simp add: CalculateEnvelope_trigger_at_start OnTrigger_unfold Retriggered_def
        UpdateParams_48k GetNextEnvelopeOutput_def INDEX_NONE_def Pow_def wrap_int32_def
        TestEngine_def Decaying_def TestOperator_def TestEnvelope_def
        FLowPassGateOperator_init_def FEnvelopeState_init_def)
  have b2: "StartingEnvelopeValue (EnvelopeState (Execute TestEngine ?s2)) = 0
      \<and> OutEnvelope (Execute TestEngine ?s2) = 0"
    using second by (simp add: Execute_VCA [OF s2(1)])
  have vals: "OutEnvelope ?b1 = 3 / 4" "CurrentSampleIndex (EnvelopeState ?b1) = 12481"
    "bHardReset (EnvelopeState ?b1) = False"
    by (simp_all add: b1 TestEnvelope_def FEnvelopeState_init_def)
  show ?thesis using never vals b2 by blast
qed

end
